theory Spec2Isabelle
  imports Complex_Main "HOL-Library.Product_Lexorder"
begin

section \<open>Scheduler: data model\<close>

text \<open>
  The scheduler plugin (extensions/sahr-scheduler/index.ts) is embedded as pure functions
  over an explicit list of booking documents, which stands for the Firestore collection
  \<open>sahr_bookings\<close>.

  Conventions of the embedding:
  \<^item> a JavaScript \<open>Date\<close> is its \<open>getTime()\<close> value, an \<open>int\<close> of milliseconds since
    the epoch; the local time zone of the process is UTC, so \<open>setHours\<close> and
    \<open>setDate\<close> add whole hours and days;
  \<^item> a calendar date string \<open>YYYY-MM-DD\<close> is the number of its day since 1970-01-01
    (string comparison of well-formed ISO dates is comparison of these numbers);
  \<^item> a time string \<open>HH:MM\<close> is the pair of numbers that \<open>split(":").map(Number)\<close>
    yields from it;
  \<^item> JavaScript numbers that the code only adds and compares are exact (\<open>int\<close>, and
    \<open>rat\<close> where the code divides).
\<close>

type_synonym date_str = int
type_synonym time_str = "int \<times> int"
type_synonym js_date = int

datatype booking_status = Scheduled | Confirmed | In_progress | Completed | Cancelled | No_show

record booking_doc =
  doc_id :: string
  doc_customerName :: string
  doc_appointmentDate :: date_str
  doc_appointmentTime :: time_str
  doc_status :: booking_status
  doc_serviceType :: string
  doc_location :: "string option"

record BookingConflict =
  bookingId :: string
  customerName :: string
  date :: date_str
  time :: time_str
  location :: string

record TimeSlot =
  slot_date :: date_str
  slot_time :: int
  available :: bool
  reason :: "(string \<times> time_str) option"

record config =
  defaultServiceDuration :: int
  workingHours_start :: int
  workingHours_end :: int

subsection \<open>Constants\<close>

definition SERVICE_DURATIONS :: "string \<Rightarrow> int option" where
  "SERVICE_DURATIONS =
     [''full_detail'' \<mapsto> 180, ''interior'' \<mapsto> 90, ''exterior'' \<mapsto> 60,
      ''coating'' \<mapsto> 300, ''wash'' \<mapsto> 45]"

definition BUFFER_MINUTES :: int where
  "BUFFER_MINUTES = 30"

definition MS_PER_DAY :: int where
  "MS_PER_DAY = 1000 * 60 * 60 * 24"

subsection \<open>Helpers\<close>

text \<open>\<open>a || b\<close> on an optional string and on an optional number: the empty string,
  zero and \<open>undefined\<close> are falsy.\<close>

fun or_string :: "string option \<Rightarrow> string \<Rightarrow> string" where
  "or_string None d = d"
| "or_string (Some s) d = (if s = [] then d else s)"

fun or_number :: "int option \<Rightarrow> int \<Rightarrow> int" where
  "or_number None d = d"
| "or_number (Some n) d = (if n = 0 then d else n)"

definition new_Date :: "date_str \<Rightarrow> js_date" where
  "new_Date dateStr = dateStr * MS_PER_DAY"

definition formatDate :: "js_date \<Rightarrow> date_str" where
  "formatDate d = d div MS_PER_DAY"

definition parseDateTime :: "date_str \<Rightarrow> time_str \<Rightarrow> js_date" where
  "parseDateTime dateStr timeStr =
     (case timeStr of (hours, minutes) \<Rightarrow>
        new_Date dateStr + hours * (60 * 60 * 1000) + minutes * (60 * 1000))"

definition addMinutes :: "js_date \<Rightarrow> int \<Rightarrow> js_date" where
  "addMinutes d minutes = d + minutes * 60 * 1000"

text \<open>\<open>SERVICE_DURATIONS[serviceType || "full_detail"] || config.defaultServiceDuration\<close>
  for a service type that is absent or names no property that the table object inherits;
  the parameter schema of sahr_scheduler_check_availability admits the five service types
  of the table only.\<close>

definition serviceDuration_of :: "config \<Rightarrow> string option \<Rightarrow> int" where
  "serviceDuration_of cfg serviceType =
     or_number (SERVICE_DURATIONS (or_string serviceType ''full_detail''))
       (defaultServiceDuration cfg)"

section \<open>Scheduler: sahr_scheduler_check_availability\<close>

record availability_params =
  p_date :: date_str
  p_endDate :: "date_str option"
  p_serviceType :: "string option"

text \<open>The Firestore query: bookings of the date range whose status is scheduled,
  confirmed or in_progress, ordered by date and then time.\<close>

definition active_status :: "booking_status \<Rightarrow> bool" where
  "active_status s = (s = Scheduled \<or> s = Confirmed \<or> s = In_progress)"

definition to_conflict :: "booking_doc \<Rightarrow> BookingConflict" where
  "to_conflict d =
     \<lparr> bookingId = doc_id d, customerName = doc_customerName d,
       date = doc_appointmentDate d, time = doc_appointmentTime d,
       location = (case doc_location d of None \<Rightarrow> ''TBD''
                   | Some l \<Rightarrow> if l = [] then ''TBD'' else l) \<rparr>"

definition query_bookings :: "booking_doc list \<Rightarrow> date_str \<Rightarrow> date_str \<Rightarrow> booking_doc list" where
  "query_bookings db lo hi =
     sort_key (\<lambda>d. (doc_appointmentDate d, doc_appointmentTime d))
       (filter (\<lambda>d. lo \<le> doc_appointmentDate d \<and> doc_appointmentDate d \<le> hi
                     \<and> active_status (doc_status d)) db)"

text \<open>The inner loop over the day's bookings, leaving at the first overlap.\<close>

fun find_conflict :: "js_date \<Rightarrow> js_date \<Rightarrow> int \<Rightarrow> BookingConflict list \<Rightarrow> BookingConflict option" where
  "find_conflict slotStart slotEnd serviceDuration [] = None"
| "find_conflict slotStart slotEnd serviceDuration (booking # rest) =
     (let bookingStart = parseDateTime (date booking) (time booking);
          bookingEnd = addMinutes bookingStart (serviceDuration + BUFFER_MINUTES)
      in if slotStart < bookingEnd \<and> slotEnd > bookingStart then Some booking
         else find_conflict slotStart slotEnd serviceDuration rest)"

text \<open>The body of the loop over hours: one slot.\<close>

definition make_slot :: "int \<Rightarrow> date_str \<Rightarrow> BookingConflict list \<Rightarrow> int \<Rightarrow> TimeSlot" where
  "make_slot serviceDuration dateStr dayBookings hour =
     (let slotStart = parseDateTime dateStr (hour, 0);
          slotEnd = addMinutes slotStart (serviceDuration + BUFFER_MINUTES);
          conflict = find_conflict slotStart slotEnd serviceDuration dayBookings
      in \<lparr> slot_date = dateStr, slot_time = hour,
           available = (conflict = None),
           reason = map_option (\<lambda>c. (customerName c, time c)) conflict \<rparr>)"

text \<open>The loop condition \<open>hour <= config.workingHours.end - serviceDuration / 60\<close>;
  the division is not an integer division.\<close>

definition hour_in_range :: "config \<Rightarrow> int \<Rightarrow> int \<Rightarrow> bool" where
  "hour_in_range cfg serviceDuration hour =
     ((of_int hour :: rat) \<le> of_int (workingHours_end cfg) - of_int serviceDuration / 60)"

function hour_loop :: "config \<Rightarrow> int \<Rightarrow> date_str \<Rightarrow> BookingConflict list \<Rightarrow> int \<Rightarrow> TimeSlot list" where
  "hour_loop cfg serviceDuration dateStr dayBookings hour =
     (if hour_in_range cfg serviceDuration hour
      then make_slot serviceDuration dateStr dayBookings hour
             # hour_loop cfg serviceDuration dateStr dayBookings (hour + 1)
      else [])"
  by pat_completeness auto
termination
proof (relation "measure (\<lambda>(cfg, serviceDuration, dateStr, dayBookings, hour).
         nat (60 * workingHours_end cfg - serviceDuration - 60 * hour + 1))")
  show "wf (measure (\<lambda>(cfg, serviceDuration, dateStr, dayBookings, hour).
         nat (60 * workingHours_end cfg - serviceDuration - 60 * hour + 1)))"
    by simp
next
  fix cfg :: config and serviceDuration dateStr :: int
    and dayBookings :: "BookingConflict list" and hour :: int
  assume "hour_in_range cfg serviceDuration hour"
  then have "(of_int (60 * hour) :: rat) \<le> of_int (60 * workingHours_end cfg - serviceDuration)"
    unfolding hour_in_range_def by (simp add: field_simps)
  then have "60 * hour \<le> 60 * workingHours_end cfg - serviceDuration"
    by (simp only: of_int_le_iff)
  then show "((cfg, serviceDuration, dateStr, dayBookings, hour + 1),
              (cfg, serviceDuration, dateStr, dayBookings, hour))
        \<in> measure (\<lambda>(cfg, serviceDuration, dateStr, dayBookings, hour).
             nat (60 * workingHours_end cfg - serviceDuration - 60 * hour + 1))"
    by simp
qed

declare hour_loop.simps [simp del]

text \<open>The outer loop over the days of the range.\<close>

function date_loop :: "config \<Rightarrow> int \<Rightarrow> BookingConflict list \<Rightarrow> date_str \<Rightarrow> date_str \<Rightarrow> TimeSlot list" where
  "date_loop cfg serviceDuration existingBookings currentDate endDate =
     (if currentDate \<le> endDate
      then hour_loop cfg serviceDuration currentDate
             (filter (\<lambda>b. date b = currentDate) existingBookings) (workingHours_start cfg)
           @ date_loop cfg serviceDuration existingBookings (currentDate + 1) endDate
      else [])"
  by pat_completeness auto
termination
  by (relation "measure (\<lambda>(cfg, serviceDuration, existingBookings, currentDate, endDate).
         nat (endDate - currentDate + 1))") auto

declare date_loop.simps [simp del]

record availability_details =
  slots :: "TimeSlot list"
  existingBookings :: "BookingConflict list"

definition sahr_scheduler_check_availability ::
    "config \<Rightarrow> booking_doc list \<Rightarrow> availability_params \<Rightarrow> availability_details" where
  "sahr_scheduler_check_availability cfg db params =
     (let startDate = p_date params;
          endDate = (case p_endDate params of None \<Rightarrow> startDate | Some e \<Rightarrow> e);
          serviceDuration = serviceDuration_of cfg (p_serviceType params);
          existing = map to_conflict (query_bookings db (p_date params) endDate)
      in \<lparr> slots = date_loop cfg serviceDuration existing startDate endDate,
           existingBookings = existing \<rparr>)"

section \<open>Scheduler: sahr_scheduler_suggest_times\<close>

datatype urgency = Asap | This_week | Next_week | Flexible

datatype time_range = Morning | Afternoon | Evening

record suggest_params =
  sp_customerName :: string
  sp_preferredDays :: "string list option"
  sp_preferredTimeRange :: "time_range option"
  sp_serviceType :: "string option"
  sp_urgency :: "urgency option"

record Suggestion =
  sg_date :: date_str
  sg_time :: int
  score :: int
  sg_reason :: string

text \<open>\<open>toLocaleDateString("en-US", {weekday: "long"})\<close>: day 0 of the epoch was a
  Thursday.\<close>

definition getDayName :: "js_date \<Rightarrow> string" where
  "getDayName d =
     [''Thursday'', ''Friday'', ''Saturday'', ''Sunday'', ''Monday'', ''Tuesday'', ''Wednesday'']
       ! nat ((d div MS_PER_DAY) mod 7)"

definition lower_char :: "char \<Rightarrow> char" where
  "lower_char c =
     (let n = (of_char c :: nat) in if 65 \<le> n \<and> n \<le> 90 then char_of (n + 32) else c)"

definition toLowerCase :: "string \<Rightarrow> string" where
  "toLowerCase s = map lower_char s"

text \<open>The \<open>switch\<close> on urgency: start and end of the searched range.\<close>

fun urgency_range :: "urgency option \<Rightarrow> js_date \<Rightarrow> js_date \<times> js_date" where
  "urgency_range (Some Asap) today = (today, today + 3 * MS_PER_DAY)"
| "urgency_range (Some This_week) today = (today, today + 7 * MS_PER_DAY)"
| "urgency_range (Some Next_week) today = (today + 7 * MS_PER_DAY, today + 14 * MS_PER_DAY)"
| "urgency_range _ today = (today, today + 14 * MS_PER_DAY)"

fun timeRanges :: "time_range \<Rightarrow> int \<times> int" where
  "timeRanges Morning = (9, 12)"
| "timeRanges Afternoon = (12, 17)"
| "timeRanges Evening = (17, 21)"

definition preferredRange :: "suggest_params \<Rightarrow> int \<times> int" where
  "preferredRange params =
     timeRanges (case sp_preferredTimeRange params of None \<Rightarrow> Afternoon | Some r \<Rightarrow> r)"

text \<open>The query of this tool keeps scheduled and confirmed bookings only and asks for no
  order; each booking is reduced to its date and time.\<close>

definition query_suggest :: "booking_doc list \<Rightarrow> date_str \<Rightarrow> date_str \<Rightarrow> (date_str \<times> time_str) list" where
  "query_suggest db lo hi =
     map (\<lambda>d. (doc_appointmentDate d, doc_appointmentTime d))
       (filter (\<lambda>d. lo \<le> doc_appointmentDate d \<and> doc_appointmentDate d \<le> hi
                     \<and> (doc_status d = Scheduled \<or> doc_status d = Confirmed)) db)"

text \<open>The service type of this tool is any string, and the table is a plain object: a
  string that names a property inherited from \<open>Object.prototype\<close> finds that property,
  which is not a number, and \<open>serviceDuration / 60\<close> is then \<open>NaN\<close>. \<open>None\<close> stands
  for such a duration.\<close>

definition inherited_keys :: "string list" where
  "inherited_keys =
     [''constructor'', ''__defineGetter__'', ''__defineSetter__'', ''hasOwnProperty'',
      ''__lookupGetter__'', ''__lookupSetter__'', ''isPrototypeOf'', ''propertyIsEnumerable'',
      ''toString'', ''valueOf'', ''__proto__'', ''toLocaleString'']"

definition suggest_serviceDuration :: "config \<Rightarrow> string option \<Rightarrow> int option" where
  "suggest_serviceDuration cfg serviceType =
     (if or_string serviceType ''full_detail'' \<in> set inherited_keys then None
      else Some (serviceDuration_of cfg serviceType))"

text \<open>The callback of \<open>existingBookings.some\<close>; \<open>parseInt(b.time.split(":")[0])\<close> is
  the hour component of the time. A comparison with \<open>NaN\<close> is false.\<close>

definition conflicts_with :: "int option \<Rightarrow> date_str \<Rightarrow> int \<Rightarrow> date_str \<times> time_str \<Rightarrow> bool" where
  "conflicts_with serviceDuration dateStr hour b =
     (if fst b \<noteq> dateStr then False
      else (case serviceDuration of
              None \<Rightarrow> False
            | Some duration \<Rightarrow>
                (let bookingHour = fst (snd b);
                     bookingEnd = bookingHour + \<lceil>(of_int duration :: rat) / 60\<rceil>
                 in hour \<ge> bookingHour \<and> hour < bookingEnd)))"

definition hasConflict :: "int option \<Rightarrow> (date_str \<times> time_str) list \<Rightarrow> date_str \<Rightarrow> int \<Rightarrow> bool" where
  "hasConflict serviceDuration existing dateStr hour =
     list_ex (conflicts_with serviceDuration dateStr hour) existing"

definition dayMatch :: "suggest_params \<Rightarrow> js_date \<Rightarrow> bool" where
  "dayMatch params currentDate =
     (case sp_preferredDays params of None \<Rightarrow> True
      | Some days \<Rightarrow> toLowerCase (getDayName currentDate) \<in> set days)"

fun join :: "string list \<Rightarrow> string" where
  "join [] = []"
| "join [r] = r"
| "join (r # rs) = r @ '', '' @ join rs"

text \<open>The body of the loop over hours for a slot without conflict.\<close>

definition make_suggestion :: "suggest_params \<Rightarrow> js_date \<Rightarrow> js_date \<Rightarrow> int \<Rightarrow> Suggestion" where
  "make_suggestion params today currentDate hour =
     (let score0 = 100;
          reasons0 = [];
          (score1, reasons1) =
             (if dayMatch params currentDate
              then (score0 + 20, reasons0 @ [''matches preferred day''])
              else (score0, reasons0));
          (score2, reasons2) =
             (if sp_urgency params = Some Asap
              then (let daysFromNow = (currentDate - today) div MS_PER_DAY
                    in (score1 + max 0 (30 - daysFromNow * 5),
                        if daysFromNow \<le> 2 then reasons1 @ [''soon''] else reasons1))
              else (score1, reasons1));
          (score3, reasons3) =
             (if hour = 17 \<or> hour = 18
              then (score2 + 10, reasons2 @ [''popular time''])
              else (score2, reasons2))
      in \<lparr> sg_date = formatDate currentDate, sg_time = hour, score = score3,
           sg_reason = (if join reasons3 = [] then ''available'' else join reasons3) \<rparr>)"

function suggest_hour_loop ::
    "suggest_params \<Rightarrow> int option \<Rightarrow> (date_str \<times> time_str) list \<Rightarrow> js_date \<Rightarrow> js_date
      \<Rightarrow> int \<Rightarrow> int \<Rightarrow> Suggestion list" where
  "suggest_hour_loop params serviceDuration existing today currentDate hour range_end =
     (if hour < range_end
      then (if \<not> hasConflict serviceDuration existing (formatDate currentDate) hour
            then [make_suggestion params today currentDate hour] else [])
           @ suggest_hour_loop params serviceDuration existing today currentDate (hour + 1) range_end
      else [])"
  by pat_completeness auto
termination
  by (relation "measure (\<lambda>(params, serviceDuration, existing, today, currentDate, hour, range_end).
         nat (range_end - hour))") auto

declare suggest_hour_loop.simps [simp del]

function suggest_date_loop ::
    "suggest_params \<Rightarrow> int option \<Rightarrow> (date_str \<times> time_str) list \<Rightarrow> js_date \<Rightarrow> js_date
      \<Rightarrow> js_date \<Rightarrow> Suggestion list" where
  "suggest_date_loop params serviceDuration existing today currentDate endDate =
     (if currentDate \<le> endDate
      then suggest_hour_loop params serviceDuration existing today currentDate
             (fst (preferredRange params)) (snd (preferredRange params))
           @ suggest_date_loop params serviceDuration existing today
               (currentDate + MS_PER_DAY) endDate
      else [])"
  by pat_completeness auto
termination
  by (relation "measure (\<lambda>(params, serviceDuration, existing, today, currentDate, endDate).
         nat (endDate - currentDate + 1))") (auto simp: MS_PER_DAY_def)

declare suggest_date_loop.simps [simp del]

text \<open>All suggestions in the order in which the loops push them.\<close>

definition all_suggestions :: "config \<Rightarrow> booking_doc list \<Rightarrow> js_date \<Rightarrow> suggest_params \<Rightarrow> Suggestion list" where
  "all_suggestions cfg db today params =
     (let serviceDuration = suggest_serviceDuration cfg (sp_serviceType params);
          (startDate, endDate) = urgency_range (sp_urgency params) today;
          existing = query_suggest db (formatDate startDate) (formatDate endDate)
      in suggest_date_loop params serviceDuration existing today startDate endDate)"

text \<open>\<open>suggestions.sort((a, b) => b.score - a.score)\<close> is a stable sort by descending
  score (\<open>Array.prototype.sort\<close> is stable), here insertion sort on the negated score;
  \<open>slice(0, 5)\<close> keeps the first five.\<close>

definition sahr_scheduler_suggest_times ::
    "config \<Rightarrow> booking_doc list \<Rightarrow> js_date \<Rightarrow> suggest_params \<Rightarrow> Suggestion list" where
  "sahr_scheduler_suggest_times cfg db today params =
     take 5 (sort_key (\<lambda>s. - score s) (all_suggestions cfg db today params))"

section \<open>Scheduler: sahr_scheduler_suggest_rebooking\<close>

datatype frequency = Weekly | Biweekly | Monthly | Every_1_5_months | Every_2_months | Quarterly

fun REBOOKING_INTERVALS :: "frequency \<Rightarrow> int" where
  "REBOOKING_INTERVALS Weekly = 7"
| "REBOOKING_INTERVALS Biweekly = 14"
| "REBOOKING_INTERVALS Monthly = 30"
| "REBOOKING_INTERVALS Every_1_5_months = 45"
| "REBOOKING_INTERVALS Every_2_months = 60"
| "REBOOKING_INTERVALS Quarterly = 90"

text \<open>The tool reads the clock (\<open>today\<close>) and returns \<open>formatDate(suggestedDate)\<close>.\<close>

definition sahr_scheduler_suggest_rebooking :: "js_date \<Rightarrow> date_str \<Rightarrow> frequency option \<Rightarrow> date_str" where
  "sahr_scheduler_suggest_rebooking today lastBookingDate freq =
     (let lastBooking = new_Date lastBookingDate;
          interval = REBOOKING_INTERVALS (case freq of None \<Rightarrow> Monthly | Some f \<Rightarrow> f);
          suggestedDate = lastBooking + interval * MS_PER_DAY;
          suggestedDate' = (if suggestedDate < today then today + 7 * MS_PER_DAY
                            else suggestedDate)
      in formatDate suggestedDate')"

text \<open>Calendar dates and day numbers (proleptic Gregorian calendar, as in ECMAScript):
  the day number of a year, month and day, and back.\<close>

definition date_of_ymd :: "int \<times> int \<times> int \<Rightarrow> date_str" where
  "date_of_ymd ymd =
     (case ymd of (y, m, d) \<Rightarrow>
        let y' = (if m \<le> 2 then y - 1 else y);
            era = y' div 400;
            yoe = y' - era * 400;
            doy = (153 * (if m > 2 then m - 3 else m + 9) + 2) div 5 + d - 1;
            doe = yoe * 365 + yoe div 4 - yoe div 100 + doy
        in era * 146097 + doe - 719468)"

definition ymd_of_date :: "date_str \<Rightarrow> int \<times> int \<times> int" where
  "ymd_of_date z =
     (let z' = z + 719468;
          era = z' div 146097;
          doe = z' - era * 146097;
          yoe = (doe - doe div 1460 + doe div 36524 - doe div 146096) div 365;
          doy = doe - (365 * yoe + yoe div 4 - yoe div 100);
          mp = (5 * doy + 2) div 153;
          d = doy - (153 * mp + 2) div 5 + 1;
          m = (if mp < 10 then mp + 3 else mp - 9)
      in (if m \<le> 2 then yoe + era * 400 + 1 else yoe + era * 400, m, d))"

section \<open>Finance sync: data model\<close>

text \<open>
  The finance plugin keeps two Firestore collections: \<open>sahr_bookings\<close>, read and updated
  by document id, and \<open>transactions\<close>, to which documents are only added. The store is
  passed explicitly and returned updated. What a call reads from outside the store is
  collected in an environment: the clock, the random part of \<open>generateTransactionId\<close> and
  the document ids that Firestore assigns in \<open>addDoc\<close>. Requests to Firestore do not fail in
  this model. Amounts are exact rationals.
\<close>

record BookingData =
  bd_customerId :: string
  bd_customerName :: string
  bd_serviceType :: string
  bd_appointmentDate :: string
  bd_price :: rat
  bd_tipAmount :: "rat option"
  bd_status :: string
  bd_paymentMethod :: "string option"
  financeSynced :: "bool option"
  financeTransactionId :: "string option"
  financeSyncedAt :: "string option"

record tx_metadata =
  md_bookingId :: string
  md_customerId :: "string option"
  md_customerName :: string
  md_serviceType :: "string option"
  md_tipAmount :: "rat option"
  md_syncedAt :: string

record Transaction =
  tx_id :: string
  tx_date :: string
  tx_description :: string
  tx_amount :: rat
  tx_currency :: string
  tx_accountId :: string
  tx_category :: string
  tx_categorySource :: string
  tx_entity :: string
  tx_source :: string
  tx_importedAt :: string
  tx_metadata :: tx_metadata

record firestore =
  sahr_bookings :: "string \<rightharpoonup> BookingData"
  transactions :: "(string \<times> Transaction) list"

record finance_config =
  entityId :: string
  defaultAccount :: string

record environment =
  nowISO :: string
  timestamp36 :: string
  random4 :: "string \<Rightarrow> string"
  autoId :: "nat \<Rightarrow> string"

definition SERVICE_CATEGORIES :: "string \<Rightarrow> string option" where
  "SERVICE_CATEGORIES =
     [''full_detail'' \<mapsto> ''auto-detailing'', ''interior'' \<mapsto> ''auto-detailing'',
      ''exterior'' \<mapsto> ''auto-detailing'', ''coating'' \<mapsto> ''auto-detailing'',
      ''wash'' \<mapsto> ''auto-detailing'']"

definition PAYMENT_ACCOUNTS :: "string \<Rightarrow> string option" where
  "PAYMENT_ACCOUNTS =
     [''etransfer'' \<mapsto> ''sahr-etransfer'', ''e-transfer'' \<mapsto> ''sahr-etransfer'',
      ''stripe'' \<mapsto> ''sahr-stripe'', ''cash'' \<mapsto> ''sahr-cash'',
      ''debit'' \<mapsto> ''sahr-debit'', ''credit'' \<mapsto> ''sahr-debit'']"

definition generateTransactionId :: "environment \<Rightarrow> string \<Rightarrow> string" where
  "generateTransactionId env prefix = prefix @ ''_'' @ timestamp36 env @ random4 env prefix"

definition getServiceDescription :: "string \<Rightarrow> string \<Rightarrow> string" where
  "getServiceDescription serviceType name =
     or_string
       ([''full_detail'' \<mapsto> ''Full Detail'', ''interior'' \<mapsto> ''Interior Detail'',
         ''exterior'' \<mapsto> ''Exterior Detail'', ''coating'' \<mapsto> ''Ceramic Coating'',
         ''wash'' \<mapsto> ''Car Wash''] serviceType) ''Detail''
     @ '' - '' @ name"

text \<open>\<open>a || b\<close> on an optional amount.\<close>

fun or_amount :: "rat option \<Rightarrow> rat \<Rightarrow> rat" where
  "or_amount None d = d"
| "or_amount (Some n) d = (if n = 0 then d else n)"

text \<open>\<open>addDoc\<close> appends a document under a new id and returns the id; \<open>updateDoc\<close>
  changes fields of an existing document.\<close>

definition addDoc :: "environment \<Rightarrow> firestore \<Rightarrow> Transaction \<Rightarrow> string \<times> firestore" where
  "addDoc env db t =
     (let newId = autoId env (length (transactions db))
      in (newId, db\<lparr> transactions := transactions db @ [(newId, t)] \<rparr>))"

definition updateDoc :: "firestore \<Rightarrow> string \<Rightarrow> (BookingData \<Rightarrow> BookingData) \<Rightarrow> firestore" where
  "updateDoc db ref upd =
     db\<lparr> sahr_bookings := (sahr_bookings db)(ref := map_option upd (sahr_bookings db ref)) \<rparr>"

definition mark_synced :: "environment \<Rightarrow> string \<Rightarrow> BookingData \<Rightarrow> BookingData" where
  "mark_synced env txDocId b =
     b\<lparr> financeSynced := Some True, financeTransactionId := Some txDocId,
        financeSyncedAt := Some (nowISO env) \<rparr>"

text \<open>The tip transaction that both tools build; the bulk tool leaves the customer id out
  of the metadata.\<close>

definition tip_transaction ::
    "finance_config \<Rightarrow> environment \<Rightarrow> string \<Rightarrow> BookingData \<Rightarrow> string \<Rightarrow> string option \<Rightarrow> rat
      \<Rightarrow> Transaction" where
  "tip_transaction cfg env bkId booking accountId customerId tip =
     \<lparr> tx_id = generateTransactionId env ''sahr_tip'',
       tx_date = bd_appointmentDate booking,
       tx_description = ''Tip - '' @ bd_customerName booking,
       tx_amount = tip,
       tx_currency = ''CAD'',
       tx_accountId = accountId,
       tx_category = ''tips'',
       tx_categorySource = ''crm-sync'',
       tx_entity = entityId cfg,
       tx_source = ''sahr-crm'',
       tx_importedAt = nowISO env,
       tx_metadata =
         \<lparr> md_bookingId = bkId, md_customerId = customerId,
           md_customerName = bd_customerName booking, md_serviceType = None,
           md_tipAmount = Some tip, md_syncedAt = nowISO env \<rparr> \<rparr>"

definition service_transaction ::
    "finance_config \<Rightarrow> environment \<Rightarrow> string \<Rightarrow> BookingData \<Rightarrow> string \<Rightarrow> rat \<Rightarrow> Transaction" where
  "service_transaction cfg env bkId booking accountId amount =
     \<lparr> tx_id = generateTransactionId env ''sahr'',
       tx_date = bd_appointmentDate booking,
       tx_description = getServiceDescription (bd_serviceType booking) (bd_customerName booking),
       tx_amount = amount,
       tx_currency = ''CAD'',
       tx_accountId = accountId,
       tx_category = or_string (SERVICE_CATEGORIES (bd_serviceType booking)) ''auto-detailing'',
       tx_categorySource = ''crm-sync'',
       tx_entity = entityId cfg,
       tx_source = ''sahr-crm'',
       tx_importedAt = nowISO env,
       tx_metadata =
         \<lparr> md_bookingId = bkId, md_customerId = Some (bd_customerId booking),
           md_customerName = bd_customerName booking,
           md_serviceType = Some (bd_serviceType booking),
           md_tipAmount = None, md_syncedAt = nowISO env \<rparr> \<rparr>"

text \<open>\<open>booking.tipAmount && booking.tipAmount > 0\<close>.\<close>

definition positive_tip :: "BookingData \<Rightarrow> rat option" where
  "positive_tip booking =
     (case bd_tipAmount booking of None \<Rightarrow> None | Some t \<Rightarrow> if t > 0 then Some t else None)"

section \<open>Finance sync: sahr_finance_sync_booking\<close>

record sync_params =
  sy_bookingId :: string
  sy_overrideAmount :: "rat option"
  sy_paymentMethod :: "string option"
  sy_notes :: "string option"

text \<open>The three responses of the tool: the text \<open>**Error:** Booking ... not found.\<close>, the
  text \<open>**Already Synced:** This booking was already synced as transaction ... .\<close> with the
  stored transaction id, and the report of a sync with the transaction, the tip transaction
  if any, and the Firestore id of the transaction.\<close>

datatype sync_response =
    Not_found string
  | Already_synced string
  | Booking_synced Transaction "Transaction option" string

text \<open>The guard \<open>booking.financeSynced && booking.financeTransactionId\<close>: the flag is
  true and the id is a non-empty string; the guard yields the id.\<close>

definition already_synced :: "BookingData \<Rightarrow> string option" where
  "already_synced booking =
     (if financeSynced booking = Some True
      then (case financeTransactionId booking of None \<Rightarrow> None
            | Some tid \<Rightarrow> if tid = [] then None else Some tid)
      else None)"

definition sahr_finance_sync_booking ::
    "finance_config \<Rightarrow> environment \<Rightarrow> firestore \<Rightarrow> sync_params \<Rightarrow> sync_response \<times> firestore" where
  "sahr_finance_sync_booking cfg env db params =
     (case sahr_bookings db (sy_bookingId params) of
        None \<Rightarrow> (Not_found (sy_bookingId params), db)
      | Some booking \<Rightarrow>
         (case already_synced booking of
            Some tid \<Rightarrow> (Already_synced tid, db)
          | None \<Rightarrow>
             (let paymentMethod =
                    or_string (sy_paymentMethod params)
                      (or_string (bd_paymentMethod booking) ''etransfer'');
                  accountId =
                    or_string (PAYMENT_ACCOUNTS (toLowerCase paymentMethod)) (defaultAccount cfg);
                  amount = or_amount (sy_overrideAmount params) (bd_price booking);
                  transaction0 =
                    service_transaction cfg env (sy_bookingId params) booking accountId amount;
                  transaction =
                    (case sy_notes params of None \<Rightarrow> transaction0
                     | Some n \<Rightarrow>
                         if n = [] then transaction0
                         else transaction0\<lparr> tx_description :=
                                tx_description transaction0 @ '' ('' @ n @ '')'' \<rparr>);
                  (txDocId, db1) = addDoc env db transaction;
                  db2 = updateDoc db1 (sy_bookingId params) (mark_synced env txDocId)
              in (case positive_tip booking of
                    None \<Rightarrow> (Booking_synced transaction None txDocId, db2)
                  | Some tip \<Rightarrow>
                      (let tipTransaction =
                             tip_transaction cfg env (sy_bookingId params) booking accountId
                               (Some (bd_customerId booking)) tip
                       in (Booking_synced transaction (Some tipTransaction) txDocId,
                           snd (addDoc env db2 tipTransaction)))))))"

section \<open>Finance sync: sahr_finance_bulk_sync\<close>

record bulk_params =
  bookingIds :: "string list"
  defaultPaymentMethod :: "string option"

record bulk_result =
  br_bookingId :: string
  br_success :: bool
  br_transactionId :: "string option"
  br_error :: "string option"

record bulk_state =
  bs_db :: firestore
  results :: "bulk_result list"
  totalSynced :: nat
  totalAmount :: rat

text \<open>The body of the loop over the booking ids.\<close>

definition bulk_step ::
    "finance_config \<Rightarrow> environment \<Rightarrow> bulk_params \<Rightarrow> bulk_state \<Rightarrow> string \<Rightarrow> bulk_state" where
  "bulk_step cfg env params st bkId =
     (case sahr_bookings (bs_db st) bkId of
        None \<Rightarrow>
          st\<lparr> results := results st @
                [\<lparr> br_bookingId = bkId, br_success = False, br_transactionId = None,
                   br_error = Some ''Not found'' \<rparr>] \<rparr>
      | Some booking \<Rightarrow>
          if financeSynced booking = Some True
          then st\<lparr> results := results st @
                [\<lparr> br_bookingId = bkId, br_success = False, br_transactionId = None,
                   br_error = Some ''Already synced'' \<rparr>] \<rparr>
          else
            (let paymentMethod =
                   or_string (bd_paymentMethod booking)
                     (or_string (defaultPaymentMethod params) ''etransfer'');
                 accountId =
                   or_string (PAYMENT_ACCOUNTS (toLowerCase paymentMethod)) (defaultAccount cfg);
                 transaction =
                   service_transaction cfg env bkId booking accountId (bd_price booking);
                 (txDocId, db1) = addDoc env (bs_db st) transaction;
                 db2 = updateDoc db1 bkId (mark_synced env txDocId);
                 (db3, amount1) =
                   (case positive_tip booking of
                      None \<Rightarrow> (db2, totalAmount st)
                    | Some tip \<Rightarrow>
                        (snd (addDoc env db2
                                (tip_transaction cfg env bkId booking accountId None tip)),
                         totalAmount st + tip))
             in \<lparr> bs_db = db3,
                  results = results st @
                    [\<lparr> br_bookingId = bkId, br_success = True,
                       br_transactionId = Some txDocId, br_error = None \<rparr>],
                  totalSynced = totalSynced st + 1,
                  totalAmount = amount1 + bd_price booking \<rparr>))"

definition sahr_finance_bulk_sync ::
    "finance_config \<Rightarrow> environment \<Rightarrow> firestore \<Rightarrow> bulk_params \<Rightarrow> bulk_state" where
  "sahr_finance_bulk_sync cfg env db params =
     foldl (bulk_step cfg env params)
       \<lparr> bs_db = db, results = [], totalSynced = 0, totalAmount = 0 \<rparr>
       (bookingIds params)"

section \<open>Vocabulary of the properties\<close>

text \<open>The interval a booking or a candidate slot occupies, \<open>[start, start + duration +
  buffer)\<close>, and the test whether two half-open intervals share an instant.\<close>

definition occupied_interval :: "js_date \<Rightarrow> int \<Rightarrow> js_date \<times> js_date" where
  "occupied_interval start duration = (start, addMinutes start (duration + BUFFER_MINUTES))"

definition intervals_overlap :: "js_date \<times> js_date \<Rightarrow> js_date \<times> js_date \<Rightarrow> bool" where
  "intervals_overlap a b = (max (fst a) (fst b) < min (snd a) (snd b))"

definition slot_interval :: "int \<Rightarrow> TimeSlot \<Rightarrow> js_date \<times> js_date" where
  "slot_interval serviceDuration s =
     occupied_interval (parseDateTime (slot_date s) (slot_time s, 0)) serviceDuration"

definition booking_interval :: "int \<Rightarrow> booking_doc \<Rightarrow> js_date \<times> js_date" where
  "booking_interval duration b =
     occupied_interval (parseDateTime (doc_appointmentDate b) (doc_appointmentTime b)) duration"

text \<open>The duration the table gives for the service type of an existing booking.\<close>

definition own_duration :: "config \<Rightarrow> booking_doc \<Rightarrow> int" where
  "own_duration cfg b = serviceDuration_of cfg (Some (doc_serviceType b))"

text \<open>No slot marked available overlaps an active booking of its date, where
  \<open>duration_of\<close> gives the duration that each existing booking is taken to occupy.\<close>

definition available_slots_clear ::
    "(booking_doc \<Rightarrow> int) \<Rightarrow> config \<Rightarrow> booking_doc list \<Rightarrow> availability_params \<Rightarrow> bool" where
  "available_slots_clear duration_of cfg db params =
     list_all (\<lambda>s. \<not> available s \<or>
        list_all (\<lambda>b. \<not> (active_status (doc_status b) \<and> doc_appointmentDate b = slot_date s) \<or>
             \<not> intervals_overlap
                  (slot_interval (serviceDuration_of cfg (p_serviceType params)) s)
                  (booking_interval (duration_of b) b)) db)
       (slots (sahr_scheduler_check_availability cfg db params))"

text \<open>A slot is reported as conflicting exactly when some active booking of its date
  has an interval \<open>[s2, e2)\<close> with \<open>s1 < e2\<close> and \<open>e1 > s2\<close>, for the interval
  \<open>[s1, e1)\<close> of the slot; \<open>duration_of\<close> gives the duration that each existing booking
  is taken to occupy.\<close>

definition conflict_iff_overlap ::
    "(booking_doc \<Rightarrow> int) \<Rightarrow> config \<Rightarrow> booking_doc list \<Rightarrow> availability_params \<Rightarrow> bool" where
  "conflict_iff_overlap duration_of cfg db params =
     list_all (\<lambda>s. (\<not> available s) =
        list_ex (\<lambda>b. active_status (doc_status b) \<and> doc_appointmentDate b = slot_date s
             \<and> fst (slot_interval (serviceDuration_of cfg (p_serviceType params)) s)
                   < snd (booking_interval (duration_of b) b)
             \<and> snd (slot_interval (serviceDuration_of cfg (p_serviceType params)) s)
                   > fst (booking_interval (duration_of b) b)) db)
       (slots (sahr_scheduler_check_availability cfg db params))"

text \<open>The last hour for which the loop over hours produces a slot.\<close>

definition last_hour :: "config \<Rightarrow> int \<Rightarrow> int" where
  "last_hour cfg serviceDuration =
     \<lfloor>(of_int (workingHours_end cfg) :: rat) - of_int serviceDuration / 60\<rfloor>"

text \<open>A slot list reports hour \<open>h\<close> of day \<open>d\<close> with availability \<open>a\<close>.\<close>

definition reported :: "TimeSlot list \<Rightarrow> date_str \<Rightarrow> int \<Rightarrow> bool \<Rightarrow> bool" where
  "reported sl d h a =
     list_ex (\<lambda>s. slot_date s = d \<and> slot_time s = h \<and> available s = a) sl"

subsection \<open>Example inputs\<close>

text \<open>Working hours 9 to 21; day 20454 is 2026-01-01.\<close>

definition std_config :: config where
  "std_config = \<lparr> defaultServiceDuration = 180, workingHours_start = 9, workingHours_end = 21 \<rparr>"

definition evening_booking :: "date_str \<Rightarrow> booking_doc" where
  "evening_booking d =
     \<lparr> doc_id = ''b1'', doc_customerName = ''Alex'', doc_appointmentDate = d,
       doc_appointmentTime = (18, 0), doc_status = Confirmed,
       doc_serviceType = ''full_detail'', doc_location = None \<rparr>"

definition full_detail_request :: "date_str \<Rightarrow> availability_params" where
  "full_detail_request d = \<lparr> p_date = d, p_endDate = None, p_serviceType = Some ''full_detail'' \<rparr>"

definition coating_booking :: booking_doc where
  "coating_booking =
     \<lparr> doc_id = ''b2'', doc_customerName = ''Sam'', doc_appointmentDate = 20454,
       doc_appointmentTime = (9, 0), doc_status = Scheduled,
       doc_serviceType = ''coating'', doc_location = None \<rparr>"

definition wash_request :: availability_params where
  "wash_request = \<lparr> p_date = 20454, p_endDate = None, p_serviceType = Some ''wash'' \<rparr>"

subsection \<open>Vocabulary of the suggestion ranker\<close>

text \<open>The order in which the loops enumerate candidate slots: date ascending, then hour
  ascending.\<close>

definition earlier :: "Suggestion \<Rightarrow> Suggestion \<Rightarrow> bool" where
  "earlier a b = (sg_date a < sg_date b \<or> (sg_date a = sg_date b \<and> sg_time a < sg_time b))"

text \<open>The score as a sum of its terms, read off the suggestion itself. The flag
  \<open>without_list\<close> says whether the 20 points for the weekday are also given when the
  caller supplies no list of preferred days.\<close>

definition score_formula :: "bool \<Rightarrow> suggest_params \<Rightarrow> js_date \<Rightarrow> Suggestion \<Rightarrow> int" where
  "score_formula without_list params today s =
     100
     + (if (case sp_preferredDays params of None \<Rightarrow> without_list
            | Some days \<Rightarrow> toLowerCase (getDayName (new_Date (sg_date s))) \<in> set days)
        then 20 else 0)
     + (if sp_urgency params = Some Asap
        then max 0 (30 - 5 * (sg_date s - formatDate today)) else 0)
     + (if sg_time s = 17 \<or> sg_time s = 18 then 10 else 0)"

definition scores_follow ::
    "bool \<Rightarrow> config \<Rightarrow> booking_doc list \<Rightarrow> js_date \<Rightarrow> suggest_params \<Rightarrow> bool" where
  "scores_follow without_list cfg db today params =
     list_all (\<lambda>s. score s = score_formula without_list params today s)
       (sahr_scheduler_suggest_times cfg db today params)"

text \<open>The hours suggested for day \<open>d\<close> are the hours of the preferred band that do not
  fall into \<open>[bookingHour, bookingHour + ceil(duration / 60))\<close> for a booking of that day
  whose status counts; \<open>counts\<close> says which statuses do.\<close>

definition any_status :: "booking_status \<Rightarrow> bool" where
  "any_status s = True"

definition scheduled_or_confirmed :: "booking_status \<Rightarrow> bool" where
  "scheduled_or_confirmed s = (s = Scheduled \<or> s = Confirmed)"

definition suggested_hours_rule ::
    "(booking_status \<Rightarrow> bool) \<Rightarrow> int \<Rightarrow> config \<Rightarrow> booking_doc list \<Rightarrow> js_date \<Rightarrow> suggest_params
      \<Rightarrow> date_str \<Rightarrow> bool" where
  "suggested_hours_rule counts duration cfg db today params d =
     (map sg_time (filter (\<lambda>s. sg_date s = d) (all_suggestions cfg db today params)) =
        filter (\<lambda>h. \<not> list_ex (\<lambda>b. counts (doc_status b) \<and> doc_appointmentDate b = d
                          \<and> fst (doc_appointmentTime b) \<le> h
                          \<and> h < fst (doc_appointmentTime b) + \<lceil>(of_int duration :: rat) / 60\<rceil>) db)
          [fst (preferredRange params) .. snd (preferredRange params) - 1])"

subsection \<open>Example inputs of the suggestion ranker and the rebooking calculator\<close>

text \<open>10:00 on 2026-01-01 (a Thursday), on 2026-01-10 and on 2026-03-10.\<close>

definition jan_1_10am :: js_date where
  "jan_1_10am = new_Date (date_of_ymd (2026, 1, 1)) + 36000000"

definition jan_10_10am :: js_date where
  "jan_10_10am = new_Date (date_of_ymd (2026, 1, 10)) + 36000000"

definition mar_10_10am :: js_date where
  "mar_10_10am = new_Date (date_of_ymd (2026, 3, 10)) + 36000000"

definition no_preferences :: suggest_params where
  "no_preferences = \<lparr> sp_customerName = ''Alex'', sp_preferredDays = None,
      sp_preferredTimeRange = None, sp_serviceType = None, sp_urgency = None \<rparr>"

definition friday_evening_asap :: suggest_params where
  "friday_evening_asap = \<lparr> sp_customerName = ''Alex'', sp_preferredDays = Some [''friday''],
      sp_preferredTimeRange = Some Evening, sp_serviceType = None, sp_urgency = Some Asap \<rparr>"

text \<open>Bookings of 2026-01-01: one confirmed and one cancelled; then one cancelled and one
  in progress. A request for an interior detail (90 minutes).\<close>

definition afternoon_bookings :: "booking_doc list" where
  "afternoon_bookings =
     [\<lparr> doc_id = ''b3'', doc_customerName = ''Kim'', doc_appointmentDate = 20454,
        doc_appointmentTime = (14, 30), doc_status = Confirmed,
        doc_serviceType = ''interior'', doc_location = None \<rparr>,
      \<lparr> doc_id = ''b4'', doc_customerName = ''Lee'', doc_appointmentDate = 20454,
        doc_appointmentTime = (12, 0), doc_status = Cancelled,
        doc_serviceType = ''wash'', doc_location = None \<rparr>]"

definition inactive_bookings :: "booking_doc list" where
  "inactive_bookings =
     [\<lparr> doc_id = ''b5'', doc_customerName = ''Lee'', doc_appointmentDate = 20454,
        doc_appointmentTime = (12, 0), doc_status = Cancelled,
        doc_serviceType = ''wash'', doc_location = None \<rparr>,
      \<lparr> doc_id = ''b6'', doc_customerName = ''Max'', doc_appointmentDate = 20454,
        doc_appointmentTime = (15, 0), doc_status = In_progress,
        doc_serviceType = ''wash'', doc_location = None \<rparr>]"

definition interior_request :: suggest_params where
  "interior_request = \<lparr> sp_customerName = ''Alex'', sp_preferredDays = None,
      sp_preferredTimeRange = None, sp_serviceType = Some ''interior'', sp_urgency = None \<rparr>"

subsection \<open>Vocabulary of the finance sync\<close>

text \<open>Category, amount and booking id of a posted transaction.\<close>

definition tx_summary :: "string \<times> Transaction \<Rightarrow> string \<times> rat \<times> string" where
  "tx_summary p = (tx_category (snd p), tx_amount (snd p), md_bookingId (tx_metadata (snd p)))"

subsection \<open>Example inputs of the finance sync\<close>

text \<open>A store with one completed booking that was never synced, and the same booking
  with the flag set but no transaction id.\<close>

definition example_finance_config :: finance_config where
  "example_finance_config = \<lparr> entityId = ''sahr-auto'', defaultAccount = ''sahr-etransfer'' \<rparr>"

definition example_env :: environment where
  "example_env = \<lparr> nowISO = ''2026-01-02T10:00:00.000Z'', timestamp36 = ''mjx2k0'',
      random4 = (\<lambda>prefix. ''a1b2''), autoId = (\<lambda>n. ''T'' @ replicate n (CHR ''x'')) \<rparr>"

definition completed_booking :: BookingData where
  "completed_booking =
     \<lparr> bd_customerId = ''c1'', bd_customerName = ''Alex'', bd_serviceType = ''full_detail'',
       bd_appointmentDate = ''2026-01-01'', bd_price = 250, bd_tipAmount = Some 20,
       bd_status = ''completed'', bd_paymentMethod = Some ''Cash'',
       financeSynced = None, financeTransactionId = None, financeSyncedAt = None \<rparr>"

definition flagged_booking :: BookingData where
  "flagged_booking = completed_booking\<lparr> financeSynced := Some True \<rparr>"

definition example_store :: "BookingData \<Rightarrow> firestore" where
  "example_store b = \<lparr> sahr_bookings = [''bk1'' \<mapsto> b], transactions = [] \<rparr>"

definition example_sync_params :: sync_params where
  "example_sync_params = \<lparr> sy_bookingId = ''bk1'', sy_overrideAmount = None,
      sy_paymentMethod = None, sy_notes = None \<rparr>"

section \<open>Properties of the availability check\<close>

subsection \<open>The loops\<close>

lemma find_conflict_None_iff:
  "find_conflict s e dur bs = None \<longleftrightarrow>
     (\<forall>b\<in>set bs. \<not> (s < addMinutes (parseDateTime (date b) (time b)) (dur + BUFFER_MINUTES)
                      \<and> e > parseDateTime (date b) (time b)))"
  by (induction bs) (auto simp: Let_def)

lemma hour_in_range_last: "hour_in_range cfg dur h = (h \<le> last_hour cfg dur)"
  by (simp add: hour_in_range_def last_hour_def le_floor_iff)

lemma hour_loop_map:
  "hour_loop cfg dur d bs h = map (make_slot dur d bs) [h .. last_hour cfg dur]"
proof (induction cfg dur d bs h rule: hour_loop.induct)
  case (1 cfg dur d bs h)
  show ?case
  proof (cases "hour_in_range cfg dur h")
    case True
    then have le: "h \<le> last_hour cfg dur" by (simp add: hour_in_range_last)
    have "hour_loop cfg dur d bs h = make_slot dur d bs h # hour_loop cfg dur d bs (h + 1)"
      using True by (simp add: hour_loop.simps [of _ _ _ _ h])
    also have "\<dots> = make_slot dur d bs h # map (make_slot dur d bs) [h + 1 .. last_hour cfg dur]"
      using "1.IH" [OF True] by simp
    also have "\<dots> = map (make_slot dur d bs) [h .. last_hour cfg dur]"
      using le by (simp add: upto_rec1 [of h])
    finally show ?thesis .
  next
    case False
    then have "\<not> h \<le> last_hour cfg dur" by (simp add: hour_in_range_last)
    then show ?thesis using False by (simp add: hour_loop.simps [of _ _ _ _ h])
  qed
qed

lemma date_loop_concat:
  "date_loop cfg dur ex cur en =
     concat (map (\<lambda>d. hour_loop cfg dur d (filter (\<lambda>b. date b = d) ex) (workingHours_start cfg))
               [cur .. en])"
proof (induction cfg dur ex cur en rule: date_loop.induct)
  case (1 cfg dur ex cur en)
  show ?case
  proof (cases "cur \<le> en")
    case True
    then show ?thesis
      using "1.IH" [OF True] by (simp add: upto_rec1 [of cur] date_loop.simps [of _ _ _ cur])
  next
    case False
    then show ?thesis by (simp add: date_loop.simps [of _ _ _ cur])
  qed
qed

lemma date_loop_single:
  "date_loop cfg dur ex d d =
     hour_loop cfg dur d (filter (\<lambda>b. date b = d) ex) (workingHours_start cfg)"
  by (simp add: date_loop.simps [of _ _ _ d d] date_loop.simps [of _ _ _ "d + 1" d])

lemma slot_date_make_slot [simp]: "slot_date (make_slot dur d bs h) = d"
  and slot_time_make_slot [simp]: "slot_time (make_slot dur d bs h) = h"
  by (simp_all add: make_slot_def Let_def)

lemma available_make_slot:
  "available (make_slot dur d bs h) =
     (find_conflict (parseDateTime d (h, 0))
        (addMinutes (parseDateTime d (h, 0)) (dur + BUFFER_MINUTES)) dur bs = None)"
  by (simp add: make_slot_def Let_def)

lemma date_loop_hours:
  "map slot_time (filter (\<lambda>s. slot_date s = d) (date_loop cfg dur ex cur en)) =
     (if cur \<le> d \<and> d \<le> en then [workingHours_start cfg .. last_hour cfg dur] else [])"
proof (induction cfg dur ex cur en rule: date_loop.induct)
  case (1 cfg dur ex cur en)
  let ?blk = "hour_loop cfg dur cur (filter (\<lambda>b. date b = cur) ex) (workingHours_start cfg)"
  show ?case
  proof (cases "cur \<le> en")
    case True
    have unfold: "date_loop cfg dur ex cur en = ?blk @ date_loop cfg dur ex (cur + 1) en"
      using True by (simp add: date_loop.simps [of _ _ _ cur])
    have blk: "map slot_time (filter (\<lambda>s. slot_date s = d) ?blk) =
                 (if d = cur then [workingHours_start cfg .. last_hour cfg dur] else [])"
      by (simp add: hour_loop_map filter_map comp_def)
    show ?thesis
      unfolding unfold using "1.IH" [OF True] blk True by auto
  next
    case False
    then show ?thesis by (simp add: date_loop.simps [of _ _ _ cur])
  qed
qed

lemma date_loop_member:
  assumes "s \<in> set (date_loop cfg dur ex cur en)"
  shows "cur \<le> slot_date s \<and> slot_date s \<le> en \<and>
         s = make_slot dur (slot_date s) (filter (\<lambda>b. date b = slot_date s) ex) (slot_time s)"
  using assms by (auto simp: date_loop_concat hour_loop_map)

lemma set_query_bookings:
  "set (query_bookings db lo hi) =
     {d \<in> set db. lo \<le> doc_appointmentDate d \<and> doc_appointmentDate d \<le> hi
                   \<and> active_status (doc_status d)}"
  by (simp add: query_bookings_def)

lemma query_single:
  "query_bookings [b] lo hi =
     (if lo \<le> doc_appointmentDate b \<and> doc_appointmentDate b \<le> hi \<and> active_status (doc_status b)
      then [b] else [])"
  by (simp add: query_bookings_def)

lemma date_to_conflict [simp]: "date (to_conflict b) = doc_appointmentDate b"
  and time_to_conflict [simp]: "time (to_conflict b) = doc_appointmentTime b"
  by (simp_all add: to_conflict_def)

lemma intervals_overlap_iff:
  "intervals_overlap (s1, e1) (s2, e2) = (\<exists>t. s1 \<le> t \<and> t < e1 \<and> s2 \<le> t \<and> t < e2)"
proof
  assume "intervals_overlap (s1, e1) (s2, e2)"
  then have "s1 \<le> max s1 s2 \<and> max s1 s2 < e1 \<and> s2 \<le> max s1 s2 \<and> max s1 s2 < e2"
    by (simp add: intervals_overlap_def)
  then show "\<exists>t. s1 \<le> t \<and> t < e1 \<and> s2 \<le> t \<and> t < e2" by blast
next
  assume "\<exists>t. s1 \<le> t \<and> t < e1 \<and> s2 \<le> t \<and> t < e2"
  then show "intervals_overlap (s1, e1) (s2, e2)"
    by (auto simp: intervals_overlap_def)
qed

lemma available_slot_clear_of_booking:
  assumes slot: "s \<in> set (slots (sahr_scheduler_check_availability cfg db params))"
      and free: "available s"
      and bk: "b \<in> set db"
      and act: "active_status (doc_status b)"
      and day: "doc_appointmentDate b = slot_date s"
  shows "\<not> intervals_overlap
            (slot_interval (serviceDuration_of cfg (p_serviceType params)) s)
            (booking_interval (serviceDuration_of cfg (p_serviceType params)) b)"
proof -
  let ?dur = "serviceDuration_of cfg (p_serviceType params)"
  let ?en = "case p_endDate params of None \<Rightarrow> p_date params | Some e \<Rightarrow> e"
  let ?ex = "map to_conflict (query_bookings db (p_date params) ?en)"
  let ?day = "filter (\<lambda>c. date c = slot_date s) ?ex"
  from slot have mem: "s \<in> set (date_loop cfg ?dur ?ex (p_date params) ?en)"
    by (simp add: sahr_scheduler_check_availability_def Let_def)
  note m = date_loop_member [OF mem]
  from m have rng: "p_date params \<le> slot_date s" "slot_date s \<le> ?en" by simp_all
  from m have eq: "s = make_slot ?dur (slot_date s) ?day (slot_time s)" by simp
  have "b \<in> set (query_bookings db (p_date params) ?en)"
    using bk act day rng by (simp add: set_query_bookings)
  then have inday: "to_conflict b \<in> set ?day"
    using day by simp
  have "available (make_slot ?dur (slot_date s) ?day (slot_time s))"
    using free eq by simp
  then have "find_conflict (parseDateTime (slot_date s) (slot_time s, 0))
        (addMinutes (parseDateTime (slot_date s) (slot_time s, 0)) (?dur + BUFFER_MINUTES))
        ?dur ?day = None"
    by (simp add: available_make_slot)
  then have "\<not> (parseDateTime (slot_date s) (slot_time s, 0)
                 < addMinutes (parseDateTime (date (to_conflict b)) (time (to_conflict b)))
                     (?dur + BUFFER_MINUTES)
               \<and> addMinutes (parseDateTime (slot_date s) (slot_time s, 0)) (?dur + BUFFER_MINUTES)
                 > parseDateTime (date (to_conflict b)) (time (to_conflict b)))"
    using inday unfolding find_conflict_None_iff by blast
  then show ?thesis
    by (auto simp: intervals_overlap_def slot_interval_def booking_interval_def
          occupied_interval_def)
qed

lemma evening_slots:
  "map (\<lambda>s. (slot_time s, available s))
     (slots (sahr_scheduler_check_availability std_config [evening_booking d]
        (full_detail_request d)))
   = [(9, True), (10, True), (11, True), (12, True), (13, True), (14, True),
      (15, False), (16, False), (17, False), (18, False)]"
proof -
  let ?cb = "to_conflict (evening_booking d)"
  have dur: "serviceDuration_of std_config (Some ''full_detail'') = 180"
    by (simp add: serviceDuration_of_def SERVICE_DURATIONS_def)
  have lh: "last_hour std_config 180 = 18"
    by (simp add: last_hour_def std_config_def)
  have st: "workingHours_start std_config = 9"
    by (simp add: std_config_def)
  have ex: "map to_conflict (query_bookings [evening_booking d] d d) = [?cb]"
    by (simp add: query_single evening_booking_def active_status_def)
  have day: "doc_appointmentDate (evening_booking d) = d"
    by (simp add: evening_booking_def)
  have sl: "slots (sahr_scheduler_check_availability std_config [evening_booking d]
        (full_detail_request d))
      = map (make_slot 180 d [?cb]) [9 .. 18]"
    by (simp add: sahr_scheduler_check_availability_def full_detail_request_def Let_def dur ex
          date_loop_single day hour_loop_map lh st)
  have av: "available (make_slot 180 d [?cb] h) = (h < 15 \<or> 21 < h)" for h
    by (auto simp add: available_make_slot Let_def to_conflict_def evening_booking_def
          parseDateTime_def addMinutes_def new_Date_def BUFFER_MINUTES_def)
  show ?thesis
    unfolding sl by (simp add: upto_rec1 av)
qed

lemma evening_slots_full:
  "slots (sahr_scheduler_check_availability std_config [evening_booking 20454]
      (full_detail_request 20454))
   = map (\<lambda>(h, a). \<lparr> slot_date = 20454, slot_time = h, available = a,
                      reason = (if a then None else Some (''Alex'', (18, 0))) \<rparr>)
       [(9, True), (10, True), (11, True), (12, True), (13, True), (14, True),
        (15, False), (16, False), (17, False), (18, False)]"
  by code_simp

lemma wash_slots:
  "map (\<lambda>s. (slot_time s, available s))
     (slots (sahr_scheduler_check_availability std_config [coating_booking] wash_request))
   = [(9, False), (10, False), (11, True), (12, True), (13, True), (14, True), (15, True),
      (16, True), (17, True), (18, True), (19, True), (20, True)]"
  by code_simp

subsection \<open>Overlap test\<close>

lemma make_slot_conflict_iff:
  "(\<not> available (make_slot serviceDuration dateStr dayBookings hour)) =
     (\<exists>booking\<in>set dayBookings.
        parseDateTime dateStr (hour, 0)
          < addMinutes (parseDateTime (date booking) (time booking))
              (serviceDuration + BUFFER_MINUTES)
        \<and> addMinutes (parseDateTime dateStr (hour, 0)) (serviceDuration + BUFFER_MINUTES)
          > parseDateTime (date booking) (time booking))"
  by (simp add: available_make_slot find_conflict_None_iff)

lemma slot_conflict_iff_booking:
  assumes slot: "s \<in> set (slots (sahr_scheduler_check_availability cfg db params))"
  shows "(\<not> available s) =
     (\<exists>b\<in>set db. active_status (doc_status b) \<and> doc_appointmentDate b = slot_date s
        \<and> fst (slot_interval (serviceDuration_of cfg (p_serviceType params)) s)
             < snd (booking_interval (serviceDuration_of cfg (p_serviceType params)) b)
        \<and> snd (slot_interval (serviceDuration_of cfg (p_serviceType params)) s)
             > fst (booking_interval (serviceDuration_of cfg (p_serviceType params)) b))"
proof -
  let ?dur = "serviceDuration_of cfg (p_serviceType params)"
  let ?en = "case p_endDate params of None \<Rightarrow> p_date params | Some e \<Rightarrow> e"
  let ?ex = "map to_conflict (query_bookings db (p_date params) ?en)"
  let ?day = "filter (\<lambda>c. date c = slot_date s) ?ex"
  from slot have mem: "s \<in> set (date_loop cfg ?dur ?ex (p_date params) ?en)"
    by (simp add: sahr_scheduler_check_availability_def Let_def)
  note m = date_loop_member [OF mem]
  from m have rng: "p_date params \<le> slot_date s" "slot_date s \<le> ?en" by simp_all
  from m have eq: "s = make_slot ?dur (slot_date s) ?day (slot_time s)" by simp
  have "(\<not> available s) = (\<not> available (make_slot ?dur (slot_date s) ?day (slot_time s)))"
    using eq by simp
  also have "\<dots> = (\<exists>c\<in>set ?day.
        parseDateTime (slot_date s) (slot_time s, 0)
          < addMinutes (parseDateTime (date c) (time c)) (?dur + BUFFER_MINUTES)
        \<and> addMinutes (parseDateTime (slot_date s) (slot_time s, 0)) (?dur + BUFFER_MINUTES)
          > parseDateTime (date c) (time c))"
    by (rule make_slot_conflict_iff)
  also have "\<dots> = (\<exists>b\<in>set db. active_status (doc_status b) \<and> doc_appointmentDate b = slot_date s
        \<and> parseDateTime (slot_date s) (slot_time s, 0)
             < addMinutes (parseDateTime (doc_appointmentDate b) (doc_appointmentTime b))
                 (?dur + BUFFER_MINUTES)
        \<and> addMinutes (parseDateTime (slot_date s) (slot_time s, 0)) (?dur + BUFFER_MINUTES)
             > parseDateTime (doc_appointmentDate b) (doc_appointmentTime b))"
    using rng by (auto simp: set_query_bookings)
  finally show ?thesis
    by (simp add: slot_interval_def booking_interval_def occupied_interval_def)
qed

text \<open>
  Claim C8, as the code has it. In the availability checker a candidate slot with occupied
  interval \<open>[s1, e1)\<close> is reported as conflicting if and only if some booking of its date
  with status scheduled, confirmed or in_progress has \<open>s1 < e2\<close> and \<open>e1 > s2\<close>, where
  \<open>[s2, e2)\<close> is the interval the checker gives the booking: from the booking's start to
  the start plus the duration of the requested service plus the buffer, not the duration
  of the booking's own service type.
\<close>

theorem slot_conflict_iff_overlap:
  "conflict_iff_overlap (\<lambda>b. serviceDuration_of cfg (p_serviceType params)) cfg db params"
  unfolding conflict_iff_overlap_def list_all_iff list_ex_iff
  using slot_conflict_iff_booking [of _ cfg db params] by blast

theorem slot_conflict_iff_overlap_witness:
  "reported (slots (sahr_scheduler_check_availability std_config [evening_booking 20454]
        (full_detail_request 20454))) 20454 17 False
   \<and> reported (slots (sahr_scheduler_check_availability std_config [evening_booking 20454]
        (full_detail_request 20454))) 20454 14 True
   \<and> conflict_iff_overlap (\<lambda>b. 180) std_config [evening_booking 20454] (full_detail_request 20454)"
proof -
  have d: "serviceDuration_of std_config (p_serviceType (full_detail_request 20454)) = 180"
    by (simp add: serviceDuration_of_def SERVICE_DURATIONS_def full_detail_request_def)
  have r: "reported (slots (sahr_scheduler_check_availability std_config [evening_booking 20454]
        (full_detail_request 20454))) 20454 17 False
   \<and> reported (slots (sahr_scheduler_check_availability std_config [evening_booking 20454]
        (full_detail_request 20454))) 20454 14 True"
    by code_simp
  show ?thesis
    using slot_conflict_iff_overlap [of std_config "full_detail_request 20454" "[evening_booking 20454]"] r
    unfolding d by simp
qed

text \<open>The claim as stated, with the occupied interval of an existing booking taken from
  the booking's own service type, fails: the 11:00 slot of a wash request, occupied until
  12:15, overlaps a coating booked at 9:00, occupied until 14:30, and is not reported as
  conflicting.\<close>

theorem slot_conflict_iff_overlap_counterexample:
  "\<not> conflict_iff_overlap (own_duration std_config) std_config [coating_booking] wash_request"
  by code_simp

subsection \<open>Generated hours\<close>

text \<open>
  Claim C9. For every day of the requested range the check generates one slot for each
  integer hour from \<open>workingHours.start\<close> up to \<open>workingHours.end - duration / 60\<close>
  inclusive, in this order, and no slot for any other hour or day, whatever the bookings
  are. Under working hours 9 to 21 a 180-minute service gets the hours 9 to 18, so 19:00
  and 20:00 do not appear at all.
\<close>

theorem slots_cover_exactly_fitting_hours:
  "map slot_time (filter (\<lambda>s. slot_date s = d)
       (slots (sahr_scheduler_check_availability cfg db params))) =
     (if p_date params \<le> d
         \<and> d \<le> (case p_endDate params of None \<Rightarrow> p_date params | Some e \<Rightarrow> e)
      then [workingHours_start cfg ..
            \<lfloor>(of_int (workingHours_end cfg) :: rat)
               - of_int (serviceDuration_of cfg (p_serviceType params)) / 60\<rfloor>]
      else [])"
  by (simp add: sahr_scheduler_check_availability_def Let_def date_loop_hours last_hour_def)

theorem slots_cover_exactly_fitting_hours_witness:
  "map slot_time (filter (\<lambda>s. slot_date s = 20454)
       (slots (sahr_scheduler_check_availability std_config [] (full_detail_request 20454))))
    = [9, 10, 11, 12, 13, 14, 15, 16, 17, 18]"
  using slots_cover_exactly_fitting_hours [of 20454 std_config "[]" "full_detail_request 20454"]
  by (simp add: std_config_def full_detail_request_def serviceDuration_of_def
        SERVICE_DURATIONS_def upto_rec1)

subsection \<open>The evening example\<close>

text \<open>
  Claim C3, as the code has it. With working hours 9 to 21, a requested service of 180
  minutes, the 30-minute buffer and a single booking at 18:00, the check reports the hour
  slots 15:00, 16:00, 17:00 and 18:00 as unavailable and 9:00 through 14:00 as available,
  and it generates no slot for 19:00 or later.
\<close>

theorem evening_booking_availability:
  "map (\<lambda>s. (slot_time s, available s))
     (slots (sahr_scheduler_check_availability std_config [evening_booking d]
        (full_detail_request d)))
   = [(9, True), (10, True), (11, True), (12, True), (13, True), (14, True),
      (15, False), (16, False), (17, False), (18, False)]"
  by (rule evening_slots)

text \<open>The claim as stated (18:00 and 19:00 unavailable, 9:00 through 17:00 available)
  fails on 2026-01-01.\<close>

theorem evening_booking_counterexample:
  "\<not> (reported (slots (sahr_scheduler_check_availability std_config [evening_booking 20454]
                        (full_detail_request 20454))) 20454 18 False
      \<and> reported (slots (sahr_scheduler_check_availability std_config [evening_booking 20454]
                        (full_detail_request 20454))) 20454 19 False
      \<and> reported (slots (sahr_scheduler_check_availability std_config [evening_booking 20454]
                        (full_detail_request 20454))) 20454 9 True
      \<and> reported (slots (sahr_scheduler_check_availability std_config [evening_booking 20454]
                        (full_detail_request 20454))) 20454 10 True
      \<and> reported (slots (sahr_scheduler_check_availability std_config [evening_booking 20454]
                        (full_detail_request 20454))) 20454 11 True
      \<and> reported (slots (sahr_scheduler_check_availability std_config [evening_booking 20454]
                        (full_detail_request 20454))) 20454 12 True
      \<and> reported (slots (sahr_scheduler_check_availability std_config [evening_booking 20454]
                        (full_detail_request 20454))) 20454 13 True
      \<and> reported (slots (sahr_scheduler_check_availability std_config [evening_booking 20454]
                        (full_detail_request 20454))) 20454 14 True
      \<and> reported (slots (sahr_scheduler_check_availability std_config [evening_booking 20454]
                        (full_detail_request 20454))) 20454 15 True
      \<and> reported (slots (sahr_scheduler_check_availability std_config [evening_booking 20454]
                        (full_detail_request 20454))) 20454 16 True
      \<and> reported (slots (sahr_scheduler_check_availability std_config [evening_booking 20454]
                        (full_detail_request 20454))) 20454 17 True)"
  unfolding evening_slots_full by (simp add: reported_def)

subsection \<open>Available slots and existing bookings\<close>

text \<open>
  Claim C1, as the code has it. For every availability check, over any date range and
  service type, no slot marked available has an occupied interval \<open>[slot start, slot start
  + requested duration + 30 minutes)\<close> that overlaps the interval \<open>[booking start, booking
  start + requested duration + 30 minutes)\<close> of a booking with status scheduled, confirmed
  or in_progress on that date: the checker gives every existing booking the duration of
  the requested service, not the duration of the booking's own service type.
\<close>

theorem available_slots_clear_of_bookings:
  "available_slots_clear (\<lambda>b. serviceDuration_of cfg (p_serviceType params)) cfg db params"
  unfolding available_slots_clear_def list_all_iff
  using available_slot_clear_of_booking [of _ cfg db params] by blast

theorem available_slots_clear_of_bookings_witness:
  "reported (slots (sahr_scheduler_check_availability std_config [coating_booking] wash_request))
      20454 11 True
   \<and> active_status (doc_status coating_booking)
   \<and> doc_appointmentDate coating_booking = 20454
   \<and> serviceDuration_of std_config (p_serviceType wash_request) = 45
   \<and> available_slots_clear (\<lambda>b. 45) std_config [coating_booking] wash_request"
proof -
  have d: "serviceDuration_of std_config (p_serviceType wash_request) = 45"
    by (simp add: serviceDuration_of_def SERVICE_DURATIONS_def wash_request_def)
  have r: "reported (slots (sahr_scheduler_check_availability std_config [coating_booking]
             wash_request)) 20454 11 True"
    by code_simp
  have a: "active_status (doc_status coating_booking) \<and> doc_appointmentDate coating_booking = 20454"
    by (simp add: coating_booking_def active_status_def)
  show ?thesis
    using available_slots_clear_of_bookings [of std_config wash_request "[coating_booking]"] d r a
    by simp
qed

text \<open>The claim as stated, with the occupied interval of an existing booking taken from
  the booking's own service type, fails: a coating (300 minutes) booked at 9:00 occupies
  the day until 14:30, and a wash request still gets the 11:00 slot as available.\<close>

theorem available_slots_clear_counterexample:
  "\<not> available_slots_clear (own_duration std_config) std_config [coating_booking] wash_request"
  by code_simp

section \<open>Properties of the suggestion ranker\<close>

subsection \<open>The loops\<close>

lemma formatDate_add_day: "formatDate (c + MS_PER_DAY) = formatDate c + 1"
  by (simp add: formatDate_def MS_PER_DAY_def)

lemma formatDate_add_days: "formatDate (c + k * MS_PER_DAY) = formatDate c + k"
  by (simp add: formatDate_def MS_PER_DAY_def)

lemma formatDate_new_Date [simp]: "formatDate (new_Date d) = d"
  by (simp add: formatDate_def new_Date_def MS_PER_DAY_def)

lemma sg_make_suggestion [simp]:
  "sg_date (make_suggestion p today c h) = formatDate c"
  "sg_time (make_suggestion p today c h) = h"
  by (simp_all add: make_suggestion_def Let_def split: prod.splits)

lemma suggest_hour_loop_map:
  "suggest_hour_loop p dur ex today c h e =
     map (make_suggestion p today c)
       (filter (\<lambda>hour. \<not> hasConflict dur ex (formatDate c) hour) [h .. e - 1])"
proof (induction p dur ex today c h e rule: suggest_hour_loop.induct)
  case (1 p dur ex today c h e)
  show ?case
  proof (cases "h < e")
    case True
    then have "[h .. e - 1] = h # [h + 1 .. e - 1]"
      by (simp add: upto_rec1 [of h])
    then show ?thesis
      using True "1.IH" [OF True]
      by (simp add: suggest_hour_loop.simps [of _ _ _ _ _ h])
  next
    case False
    then show ?thesis
      by (simp add: suggest_hour_loop.simps [of _ _ _ _ _ h])
  qed
qed

lemma hasConflict_iff:
  "hasConflict (Some dur) ex d h =
     (\<exists>b\<in>set ex. fst b = d \<and> fst (snd b) \<le> h
          \<and> h < fst (snd b) + \<lceil>(of_int dur :: rat) / 60\<rceil>)"
  by (auto simp: hasConflict_def conflicts_with_def list_ex_iff Let_def)

lemma sorted_wrt_upto: "sorted_wrt (<) [i .. j]"
  by (metis sorted_wrt_upto strict_sorted_iff distinct_upto sorted_upto) 

lemma sorted_wrt_lt_filter_upto: "sorted_wrt (<) (filter P [i .. j])"
  by (rule sorted_wrt_filter) (rule sorted_wrt_upto)

lemma hour_loop_earlier:
  "sorted_wrt earlier (suggest_hour_loop p dur ex today c h e)"
  unfolding suggest_hour_loop_map
  by (simp add: sorted_wrt_map earlier_def sorted_wrt_lt_filter_upto)

lemma hour_loop_date:
  "s \<in> set (suggest_hour_loop p dur ex today c h e) \<Longrightarrow> sg_date s = formatDate c"
  by (auto simp: suggest_hour_loop_map)

lemma date_loop_date_ge:
  "s \<in> set (suggest_date_loop p dur ex today c e) \<Longrightarrow> formatDate c \<le> sg_date s"
proof (induction p dur ex today c e rule: suggest_date_loop.induct)
  case (1 p dur ex today c e)
  show ?case
  proof (cases "c \<le> e")
    case True
    from "1.prems" True
    consider "s \<in> set (suggest_hour_loop p dur ex today c
                 (fst (preferredRange p)) (snd (preferredRange p)))"
      | "s \<in> set (suggest_date_loop p dur ex today (c + MS_PER_DAY) e)"
      by (auto simp: suggest_date_loop.simps [of _ _ _ _ c])
    then show ?thesis
    proof cases
      case 1
      then show ?thesis by (simp add: hour_loop_date)
    next
      case 2
      from "1.IH" [OF True 2] show ?thesis by (simp add: formatDate_add_day)
    qed
  next
    case False
    with "1.prems" show ?thesis by (simp add: suggest_date_loop.simps [of _ _ _ _ c])
  qed
qed

lemma date_loop_earlier:
  "sorted_wrt earlier (suggest_date_loop p dur ex today c e)"
proof (induction p dur ex today c e rule: suggest_date_loop.induct)
  case (1 p dur ex today c e)
  show ?case
  proof (cases "c \<le> e")
    case True
    have cross: "earlier a b"
      if "a \<in> set (suggest_hour_loop p dur ex today c
                 (fst (preferredRange p)) (snd (preferredRange p)))"
        and "b \<in> set (suggest_date_loop p dur ex today (c + MS_PER_DAY) e)" for a b
      using hour_loop_date [OF that(1)] date_loop_date_ge [OF that(2)]
      by (simp add: earlier_def formatDate_add_day)
    show ?thesis
      using True "1.IH" [OF True] cross
      by (simp add: suggest_date_loop.simps [of _ _ _ _ c] sorted_wrt_append hour_loop_earlier)
  next
    case False
    then show ?thesis by (simp add: suggest_date_loop.simps [of _ _ _ _ c])
  qed
qed

lemma all_suggestions_earlier: "sorted_wrt earlier (all_suggestions cfg db today params)"
  by (simp add: all_suggestions_def Let_def date_loop_earlier split: prod.splits)

text \<open>Insertion sort keeps equal keys in their original order.\<close>

lemma insort_key_ranked:
  assumes "sorted_wrt (\<lambda>a b. f a \<le> f b \<and> (f a = f b \<longrightarrow> R a b)) ys"
      and "\<forall>y\<in>set ys. R x y"
  shows "sorted_wrt (\<lambda>a b. f a \<le> f b \<and> (f a = f b \<longrightarrow> R a b)) (insort_key f x ys)"
  using assms
proof (induction ys)
  case Nil
  then show ?case by simp
next
  case (Cons y ys)
  show ?case
  proof (cases "f x \<le> f y")
    case True
    then show ?thesis using Cons.prems by (auto)
  next
    case False
    then show ?thesis using Cons by (auto simp: set_insort_key)
  qed
qed

lemma sort_key_ranked:
  "sorted_wrt R xs \<Longrightarrow>
     sorted_wrt (\<lambda>a b. f a \<le> f b \<and> (f a = f b \<longrightarrow> R a b)) (sort_key f xs)"
proof (induction xs)
  case Nil
  then show ?case by simp
next
  case (Cons x xs)
  then show ?case by (simp add: insort_key_ranked)
qed

lemma sorted_wrt_take_ranked: "sorted_wrt R xs \<Longrightarrow> sorted_wrt R (take n xs)"
  by (metis append_take_drop_id sorted_wrt_append)

lemma score_make_suggestion:
  "score (make_suggestion p today c h) =
     100 + (if dayMatch p c then 20 else 0)
     + (if sp_urgency p = Some Asap then max 0 (30 - ((c - today) div MS_PER_DAY) * 5) else 0)
     + (if h = 17 \<or> h = 18 then 10 else 0)"
  by (simp add: make_suggestion_def Let_def split: prod.splits)

lemma getDayName_day [simp]: "getDayName (new_Date (formatDate c)) = getDayName c"
proof -
  have "new_Date (formatDate c) div MS_PER_DAY = c div MS_PER_DAY"
    by (simp add: new_Date_def formatDate_def MS_PER_DAY_def)
  then show ?thesis by (simp only: getDayName_def)
qed

lemma suggest_date_loop_member:
  "s \<in> set (suggest_date_loop p dur ex today c e) \<Longrightarrow>
     \<exists>k h. 0 \<le> k \<and> s = make_suggestion p today (c + k * MS_PER_DAY) h"
proof (induction p dur ex today c e rule: suggest_date_loop.induct)
  case (1 p dur ex today c e)
  show ?case
  proof (cases "c \<le> e")
    case True
    from "1.prems" True
    consider "s \<in> set (suggest_hour_loop p dur ex today c
                 (fst (preferredRange p)) (snd (preferredRange p)))"
      | "s \<in> set (suggest_date_loop p dur ex today (c + MS_PER_DAY) e)"
      by (auto simp: suggest_date_loop.simps [of _ _ _ _ c])
    then show ?thesis
    proof cases
      case 1
      then obtain h where "s = make_suggestion p today c h"
        by (auto simp: suggest_hour_loop_map)
      then have "0 \<le> (0::int) \<and> s = make_suggestion p today (c + 0 * MS_PER_DAY) h" by simp
      then show ?thesis by blast
    next
      case 2
      from "1.IH" [OF True 2] obtain k h
        where k: "0 \<le> k" and s: "s = make_suggestion p today (c + MS_PER_DAY + k * MS_PER_DAY) h"
        by blast
      have "c + MS_PER_DAY + k * MS_PER_DAY = c + (k + 1) * MS_PER_DAY"
        by (simp add: algebra_simps)
      with k s have "0 \<le> k + 1 \<and> s = make_suggestion p today (c + (k + 1) * MS_PER_DAY) h"
        by simp
      then show ?thesis by blast
    qed
  next
    case False
    with "1.prems" show ?thesis by (simp add: suggest_date_loop.simps [of _ _ _ _ c])
  qed
qed

lemma urgency_range_start:
  "\<exists>j. fst (urgency_range u today) = today + j * MS_PER_DAY"
proof (cases "u = Some Next_week")
  case True
  then have "fst (urgency_range u today) = today + 7 * MS_PER_DAY" by simp
  then show ?thesis by blast
next
  case False
  then have "fst (urgency_range u today) = today + 0 * MS_PER_DAY"
    by (cases "(u, today)" rule: urgency_range.cases) auto
  then show ?thesis by blast
qed

lemma all_suggestions_member:
  assumes "s \<in> set (all_suggestions cfg db today params)"
  shows "\<exists>m h. s = make_suggestion params today (today + m * MS_PER_DAY) h"
proof -
  obtain st en where r: "urgency_range (sp_urgency params) today = (st, en)"
    by (cases "urgency_range (sp_urgency params) today")
  from urgency_range_start [of "sp_urgency params" today] r
  obtain j where j: "st = today + j * MS_PER_DAY" by auto
  from assms r obtain ex dur where "s \<in> set (suggest_date_loop params dur ex today st en)"
    by (auto simp: all_suggestions_def Let_def)
  from suggest_date_loop_member [OF this] obtain k h
    where "s = make_suggestion params today (st + k * MS_PER_DAY) h" by blast
  moreover have "st + k * MS_PER_DAY = today + (j + k) * MS_PER_DAY"
    using j by (simp add: algebra_simps)
  ultimately show ?thesis by metis
qed

lemma days_from_now: "(today + m * MS_PER_DAY - today) div MS_PER_DAY = m"
  by (simp add: MS_PER_DAY_def)

lemma score_of_suggestion:
  assumes "s \<in> set (all_suggestions cfg db today params)"
  shows "score s = score_formula True params today s"
proof -
  from all_suggestions_member [OF assms] obtain m h
    where s: "s = make_suggestion params today (today + m * MS_PER_DAY) h" by blast
  have dm: "dayMatch params c =
      (case sp_preferredDays params of None \<Rightarrow> True
       | Some days \<Rightarrow> toLowerCase (getDayName (new_Date (formatDate c))) \<in> set days)" for c
    by (simp add: dayMatch_def split: option.splits)
  show ?thesis
    unfolding s score_make_suggestion score_formula_def sg_make_suggestion dm
      days_from_now formatDate_add_days
    by (simp add: algebra_simps)
qed

subsection \<open>Conflict rule\<close>

lemma MS_PER_DAY_pos: "0 < MS_PER_DAY"
  by (simp add: MS_PER_DAY_def)

lemma suggest_date_loop_hours:
  "map sg_time (filter (\<lambda>s. sg_date s = d) (suggest_date_loop p dur ex today c e)) =
     (if formatDate c \<le> d \<and> c + (d - formatDate c) * MS_PER_DAY \<le> e
      then filter (\<lambda>h. \<not> hasConflict dur ex d h)
             [fst (preferredRange p) .. snd (preferredRange p) - 1]
      else [])"
proof (induction p dur ex today c e rule: suggest_date_loop.induct)
  case (1 p dur ex today c e)
  let ?blk = "suggest_hour_loop p dur ex today c (fst (preferredRange p)) (snd (preferredRange p))"
  let ?hours = "filter (\<lambda>h. \<not> hasConflict dur ex d h)
             [fst (preferredRange p) .. snd (preferredRange p) - 1]"
  show ?case
  proof (cases "c \<le> e")
    case True
    have unfold: "suggest_date_loop p dur ex today c e
        = ?blk @ suggest_date_loop p dur ex today (c + MS_PER_DAY) e"
      using True by (simp add: suggest_date_loop.simps [of _ _ _ _ c])
    have blk: "map sg_time (filter (\<lambda>s. sg_date s = d) ?blk)
        = (if d = formatDate c then ?hours else [])"
      by (simp add: suggest_hour_loop_map filter_map comp_def)
    have rest: "map sg_time (filter (\<lambda>s. sg_date s = d)
                   (suggest_date_loop p dur ex today (c + MS_PER_DAY) e))
        = (if formatDate c + 1 \<le> d \<and> c + MS_PER_DAY + (d - (formatDate c + 1)) * MS_PER_DAY \<le> e
           then ?hours else [])"
      using "1.IH" [OF True] by (simp add: formatDate_add_day)
    have shift: "c + MS_PER_DAY + (d - (formatDate c + 1)) * MS_PER_DAY
        = c + (d - formatDate c) * MS_PER_DAY"
      by (simp add: algebra_simps)
    show ?thesis
    proof (cases "d = formatDate c")
      case True
      then show ?thesis
        unfolding unfold using blk rest \<open>c \<le> e\<close> by simp
    next
      case False
      then have "(formatDate c + 1 \<le> d) = (formatDate c \<le> d)" by auto
      then show ?thesis
        unfolding unfold using blk rest False by (simp add: shift)
    qed
  next
    case False
    have "\<not> (formatDate c \<le> d \<and> c + (d - formatDate c) * MS_PER_DAY \<le> e)"
    proof
      assume a: "formatDate c \<le> d \<and> c + (d - formatDate c) * MS_PER_DAY \<le> e"
      then have "0 \<le> (d - formatDate c) * MS_PER_DAY"
        using MS_PER_DAY_pos by simp
      with a False show False by linarith
    qed
    moreover have "suggest_date_loop p dur ex today c e = []"
      using False by (simp add: suggest_date_loop.simps [of _ _ _ _ c])
    ultimately show ?thesis by auto
  qed
qed

lemma urgency_range_span:
  "\<exists>n. 0 \<le> n \<and> snd (urgency_range u today) = fst (urgency_range u today) + n * MS_PER_DAY"
proof (cases u)
  case None
  then have "0 \<le> (14::int) \<and> snd (urgency_range u today)
      = fst (urgency_range u today) + 14 * MS_PER_DAY"
    by simp
  then show ?thesis by blast
next
  case (Some v)
  show ?thesis
  proof (cases v)
    case Asap
    with Some have "0 \<le> (3::int) \<and> snd (urgency_range u today)
        = fst (urgency_range u today) + 3 * MS_PER_DAY"
      by simp
    then show ?thesis by blast
  next
    case This_week
    with Some have "0 \<le> (7::int) \<and> snd (urgency_range u today)
        = fst (urgency_range u today) + 7 * MS_PER_DAY"
      by simp
    then show ?thesis by blast
  next
    case Next_week
    with Some have "0 \<le> (7::int) \<and> snd (urgency_range u today)
        = fst (urgency_range u today) + 7 * MS_PER_DAY"
      by simp
    then show ?thesis by blast
  next
    case Flexible
    with Some have "0 \<le> (14::int) \<and> snd (urgency_range u today)
        = fst (urgency_range u today) + 14 * MS_PER_DAY"
      by simp
    then show ?thesis by blast
  qed
qed

lemma in_span:
  assumes "en = st + n * MS_PER_DAY"
  shows "(formatDate st \<le> d \<and> st + (d - formatDate st) * MS_PER_DAY \<le> en)
         = (formatDate st \<le> d \<and> d \<le> formatDate en)"
proof -
  have "(st + (d - formatDate st) * MS_PER_DAY \<le> st + n * MS_PER_DAY) = (d - formatDate st \<le> n)"
    using MS_PER_DAY_pos by simp
  moreover have "formatDate en = formatDate st + n"
    using assms by (simp add: formatDate_add_days)
  ultimately show ?thesis using assms by auto
qed

lemma hasConflict_query:
  assumes "lo \<le> d" "d \<le> hi"
  shows "hasConflict (Some dur) (query_suggest db lo hi) d h =
     list_ex (\<lambda>b. scheduled_or_confirmed (doc_status b) \<and> doc_appointmentDate b = d
                  \<and> fst (doc_appointmentTime b) \<le> h
                  \<and> h < fst (doc_appointmentTime b) + \<lceil>(of_int dur :: rat) / 60\<rceil>) db"
  using assms
  by (auto simp: hasConflict_iff query_suggest_def list_ex_iff scheduled_or_confirmed_def)

lemma suggested_hours:
  assumes lo: "formatDate (fst (urgency_range (sp_urgency params) today)) \<le> d"
      and hi: "d \<le> formatDate (snd (urgency_range (sp_urgency params) today))"
      and dur: "suggest_serviceDuration cfg (sp_serviceType params) = Some duration"
  shows "suggested_hours_rule scheduled_or_confirmed duration cfg db today params d"
proof -
  obtain st en where r: "urgency_range (sp_urgency params) today = (st, en)"
    by (cases "urgency_range (sp_urgency params) today")
  from urgency_range_span [of "sp_urgency params" today] r
  obtain n where n: "en = st + n * MS_PER_DAY" by auto
  have lo': "formatDate st \<le> d" and hi': "d \<le> formatDate en"
    using lo hi r by simp_all
  have all: "all_suggestions cfg db today params
      = suggest_date_loop params (Some duration)
          (query_suggest db (formatDate st) (formatDate en)) today st en"
    by (simp add: all_suggestions_def Let_def r dur)
  have cond: "formatDate st \<le> d \<and> st + (d - formatDate st) * MS_PER_DAY \<le> en"
    using in_span [OF n, of d] lo' hi' by simp
  show ?thesis
    unfolding suggested_hours_rule_def all suggest_date_loop_hours
    using cond by (simp add: hasConflict_query [OF lo' hi'])
qed

lemma top_of_all:
  "set (sahr_scheduler_suggest_times cfg db today params)
      \<subseteq> set (all_suggestions cfg db today params)
   \<and> length (sahr_scheduler_suggest_times cfg db today params)
      = min 5 (length (all_suggestions cfg db today params))"
proof -
  have "set (take 5 (sort_key (\<lambda>s. - score s) (all_suggestions cfg db today params)))
      \<subseteq> set (sort_key (\<lambda>s. - score s) (all_suggestions cfg db today params))"
    by (rule set_take_subset)
  then show ?thesis
    by (simp add: sahr_scheduler_suggest_times_def min.commute)
qed

lemma suggested_hours_active:
  assumes lo: "formatDate (fst (urgency_range (sp_urgency params) today)) \<le> d"
      and hi: "d \<le> formatDate (snd (urgency_range (sp_urgency params) today))"
      and noip: "\<forall>b\<in>set db. doc_appointmentDate b = d \<longrightarrow> doc_status b \<noteq> In_progress"
      and dur: "suggest_serviceDuration cfg (sp_serviceType params) = Some duration"
  shows "suggested_hours_rule active_status duration cfg db today params d"
proof -
  have same: "list_ex (\<lambda>b. active_status (doc_status b) \<and> doc_appointmentDate b = d
                          \<and> fst (doc_appointmentTime b) \<le> h
                          \<and> h < fst (doc_appointmentTime b) + \<lceil>(of_int duration :: rat) / 60\<rceil>) db
      = list_ex (\<lambda>b. scheduled_or_confirmed (doc_status b) \<and> doc_appointmentDate b = d
                          \<and> fst (doc_appointmentTime b) \<le> h
                          \<and> h < fst (doc_appointmentTime b) + \<lceil>(of_int duration :: rat) / 60\<rceil>) db"
    for h
    using noip by (auto simp: list_ex_iff active_status_def scheduled_or_confirmed_def)
  from suggested_hours [OF lo hi dur, of db] show ?thesis
    unfolding suggested_hours_rule_def same .
qed

text \<open>
  Claim C4, as the code has it. In sahr_scheduler_suggest_times, on a day of the searched
  range that has no booking in progress, an hour \<open>h\<close> of the preferred band is treated as
  conflicting, and so not suggested, if and only if some booking of that day with status
  scheduled or confirmed, with start hour \<open>bookingHour\<close>, satisfies
  \<open>bookingHour \<le> h < bookingHour + ceil(duration / 60)\<close>, where \<open>duration\<close> is the
  duration of the requested service in minutes (a number) and no buffer is added.
  Bookings with status completed, cancelled or no_show never make an hour conflict. The
  tool returns the five best of the hours that are left, or all of them if there are
  fewer.
\<close>

theorem suggested_hours_conflict_rule:
  assumes lo: "formatDate (fst (urgency_range (sp_urgency params) today)) \<le> d"
      and hi: "d \<le> formatDate (snd (urgency_range (sp_urgency params) today))"
      and noip: "\<forall>b\<in>set db. doc_appointmentDate b = d \<longrightarrow> doc_status b \<noteq> In_progress"
      and dur: "suggest_serviceDuration cfg (sp_serviceType params) = Some duration"
  shows "suggested_hours_rule active_status duration cfg db today params d
     \<and> set (sahr_scheduler_suggest_times cfg db today params)
          \<subseteq> set (all_suggestions cfg db today params)
     \<and> length (sahr_scheduler_suggest_times cfg db today params)
          = min 5 (length (all_suggestions cfg db today params))"
  using suggested_hours_active [OF lo hi noip dur] top_of_all [of cfg db today params]
  by (intro conjI) simp_all

theorem suggested_hours_conflict_rule_witness:
  "formatDate (fst (urgency_range (sp_urgency interior_request) jan_1_10am)) \<le> 20454
   \<and> 20454 \<le> formatDate (snd (urgency_range (sp_urgency interior_request) jan_1_10am))
   \<and> filter (\<lambda>b. doc_appointmentDate b = 20454 \<and> doc_status b = In_progress)
         afternoon_bookings = []
   \<and> suggest_serviceDuration std_config (sp_serviceType interior_request) = Some 90
   \<and> map sg_time (filter (\<lambda>s. sg_date s = 20454)
         (all_suggestions std_config afternoon_bookings jan_1_10am interior_request))
       = [12, 13, 16]
   \<and> length (sahr_scheduler_suggest_times std_config afternoon_bookings jan_1_10am
         interior_request) = 5"
proof -
  have h1: "formatDate (fst (urgency_range (sp_urgency interior_request) jan_1_10am)) \<le> 20454"
    by code_simp
  have h2: "20454 \<le> formatDate (snd (urgency_range (sp_urgency interior_request) jan_1_10am))"
    by code_simp
  have h3: "\<forall>b\<in>set afternoon_bookings. doc_appointmentDate b = 20454
              \<longrightarrow> doc_status b \<noteq> In_progress"
    by (simp add: afternoon_bookings_def)
  have h4: "suggest_serviceDuration std_config (sp_serviceType interior_request) = Some 90"
    by code_simp
  note t = suggested_hours_conflict_rule [OF h1 h2 h3 h4]
  have hours: "filter (\<lambda>h. \<not> list_ex (\<lambda>b. active_status (doc_status b)
                          \<and> doc_appointmentDate b = 20454
                          \<and> fst (doc_appointmentTime b) \<le> h
                          \<and> h < fst (doc_appointmentTime b) + \<lceil>(of_int 90 :: rat) / 60\<rceil>)
                       afternoon_bookings)
          [fst (preferredRange interior_request) .. snd (preferredRange interior_request) - 1]
      = [12, 13, 16]"
    by code_simp
  have n: "min 5 (length (all_suggestions std_config afternoon_bookings jan_1_10am
             interior_request)) = 5"
    by code_simp
  from t [THEN conjunct1, unfolded suggested_hours_rule_def hours]
  have c1: "map sg_time (filter (\<lambda>s. sg_date s = 20454)
         (all_suggestions std_config afternoon_bookings jan_1_10am interior_request))
       = [12, 13, 16]" .
  from t [THEN conjunct2, THEN conjunct2, unfolded n]
  have c2: "length (sahr_scheduler_suggest_times std_config afternoon_bookings jan_1_10am
         interior_request) = 5" .
  have h3': "filter (\<lambda>b. doc_appointmentDate b = 20454 \<and> doc_status b = In_progress)
         afternoon_bookings = []"
    by (simp add: afternoon_bookings_def)
  show ?thesis
    using h1 h2 h3' h4 c1 c2 by (intro conjI)
qed

text \<open>The claim as stated counts every existing booking. The tool queries bookings with
  status scheduled or confirmed only: with a cancelled booking at 12:00 and a booking in
  progress at 15:00 it suggests every hour from 12:00 to 16:00, whether existing bookings
  are all bookings of the store or the bookings that occupy the calendar.\<close>

theorem suggested_hours_conflict_rule_counterexample:
  "suggest_serviceDuration std_config (sp_serviceType no_preferences) = Some 180
   \<and> \<not> suggested_hours_rule any_status 180 std_config inactive_bookings jan_1_10am
         no_preferences 20454
   \<and> \<not> suggested_hours_rule active_status 180 std_config inactive_bookings jan_1_10am
         no_preferences 20454"
  by code_simp

lemma inactive_bookings_hours:
  "map sg_time (filter (\<lambda>s. sg_date s = 20454)
       (all_suggestions std_config inactive_bookings jan_1_10am no_preferences))
     = [12, 13, 14, 15, 16]"
  by code_simp

subsection \<open>Scores\<close>

text \<open>
  Claim C6, as the code has it. The score of every suggestion returned by
  sahr_scheduler_suggest_times is 100, plus 20 if the caller supplied no list of preferred
  days or the weekday of the slot is in the supplied list, plus
  \<open>max(0, 30 - 5 * daysFromNow)\<close> if the urgency is asap, plus 10 if the hour of the slot is
  17 or 18; nothing else contributes.
\<close>

theorem suggestion_scores: "scores_follow True cfg db today params"
  unfolding scores_follow_def list_all_iff sahr_scheduler_suggest_times_def
  using score_of_suggestion [of _ cfg db today params]
  by (metis in_set_takeD set_sort)

theorem suggestion_scores_witness:
  "scores_follow True std_config [] jan_1_10am friday_evening_asap
   \<and> map score (sahr_scheduler_suggest_times std_config [] jan_1_10am friday_evening_asap)
       = [155, 155, 145, 145, 140]"
proof -
  have "map score (sahr_scheduler_suggest_times std_config [] jan_1_10am friday_evening_asap)
       = [155, 155, 145, 145, 140]"
    by code_simp
  then show ?thesis
    using suggestion_scores [of std_config "[]" jan_1_10am friday_evening_asap] by blast
qed

text \<open>The claim as stated gives the 20 points only for a weekday that matches a supplied
  list; without a list the code still gives them, so every score is 120 or more.\<close>

theorem suggestion_scores_counterexample:
  "\<not> scores_follow False std_config [] jan_1_10am no_preferences"
  by code_simp

subsection \<open>Ranking\<close>

lemma ranked_top:
  "length (sahr_scheduler_suggest_times cfg db today params) \<le> 5
   \<and> sorted_wrt (\<lambda>a b. score a \<ge> score b \<and> (score a = score b \<longrightarrow> earlier a b))
        (sahr_scheduler_suggest_times cfg db today params)
   \<and> sorted_wrt earlier (all_suggestions cfg db today params)"
proof -
  have "sorted_wrt (\<lambda>a b. - score a \<le> - score b \<and> (- score a = - score b \<longrightarrow> earlier a b))
          (sort_key (\<lambda>s. - score s) (all_suggestions cfg db today params))"
    by (rule sort_key_ranked) (rule all_suggestions_earlier)
  then have "sorted_wrt (\<lambda>a b. score a \<ge> score b \<and> (score a = score b \<longrightarrow> earlier a b))
          (sort_key (\<lambda>s. - score s) (all_suggestions cfg db today params))"
    by simp
  then show ?thesis
    by (simp add: sahr_scheduler_suggest_times_def sorted_wrt_take_ranked all_suggestions_earlier)
qed

text \<open>
  Claim C7. sahr_scheduler_suggest_times returns at most 5 suggestions, in descending order
  of score; of two returned suggestions with the same score the one enumerated first (date
  ascending, then hour ascending within the band) comes first. The enumeration itself is
  in that order.
\<close>

theorem top_suggestions_ranked:
  "length (sahr_scheduler_suggest_times cfg db today params) \<le> 5
   \<and> sorted_wrt (\<lambda>a b. score a \<ge> score b \<and> (score a = score b \<longrightarrow> earlier a b))
        (sahr_scheduler_suggest_times cfg db today params)
   \<and> sorted_wrt earlier (all_suggestions cfg db today params)"
  by (rule ranked_top)

theorem top_suggestions_ranked_witness:
  "map (\<lambda>s. (score s, sg_date s, sg_time s))
       (sahr_scheduler_suggest_times std_config [] jan_1_10am friday_evening_asap)
     = [(155, 20455, 17), (155, 20455, 18), (145, 20455, 19), (145, 20455, 20), (140, 20454, 17)]
   \<and> sorted_wrt (\<lambda>a b. score a \<ge> score b \<and> (score a = score b \<longrightarrow> earlier a b))
        (sahr_scheduler_suggest_times std_config [] jan_1_10am friday_evening_asap)"
proof -
  have "map (\<lambda>s. (score s, sg_date s, sg_time s))
       (sahr_scheduler_suggest_times std_config [] jan_1_10am friday_evening_asap)
     = [(155, 20455, 17), (155, 20455, 18), (145, 20455, 19), (145, 20455, 20), (140, 20454, 17)]"
    by code_simp
  then show ?thesis
    using top_suggestions_ranked [of std_config "[]" jan_1_10am friday_evening_asap] by blast
qed

section \<open>Properties of the rebooking calculator\<close>

lemma day_2026_01_01: "date_of_ymd (2026, 1, 1) = 20454"
  by code_simp

lemma day_2026_01_31: "date_of_ymd (2026, 1, 31) = 20484"
  by code_simp

lemma ymd_20484: "ymd_of_date 20484 = (2026, 1, 31)"
  by code_simp

lemma new_Date_add: "new_Date d + k * MS_PER_DAY = new_Date (d + k)"
  by (simp add: new_Date_def algebra_simps)

lemma day_passed: "d < formatDate today \<Longrightarrow> new_Date d < today"
proof -
  assume "d < formatDate today"
  then have "d + 1 \<le> today div 86400000" by (simp add: formatDate_def MS_PER_DAY_def)
  then have "(d + 1) * 86400000 \<le> today div 86400000 * 86400000"
    by simp
  also have "\<dots> \<le> today"
    using mult_div_mod_eq [of 86400000 today] pos_mod_sign [of 86400000 today]
    by (simp add: mult.commute)
  finally have "(d + 1) * 86400000 \<le> today" .
  then show ?thesis by (simp add: new_Date_def MS_PER_DAY_def)
qed

lemma day_future: "formatDate today < d \<Longrightarrow> \<not> new_Date d < today"
proof -
  assume "formatDate today < d"
  then have "today div 86400000 + 1 \<le> d" by (simp add: formatDate_def MS_PER_DAY_def)
  then have "today < d * 86400000"
    by linarith
  then show ?thesis by (simp add: new_Date_def MS_PER_DAY_def)
qed

lemma rebooking_eq:
  "sahr_scheduler_suggest_rebooking today lastDate freq =
     (let interval = REBOOKING_INTERVALS (case freq of None \<Rightarrow> Monthly | Some f \<Rightarrow> f)
      in if new_Date (lastDate + interval) < today then formatDate today + 7 else lastDate + interval)"
  by (simp add: sahr_scheduler_suggest_rebooking_def Let_def new_Date_add
        formatDate_add_days [of today 7, simplified])

lemma rebooking_cases:
  "sahr_scheduler_suggest_rebooking today lastDate freq =
     (if new_Date (lastDate + (case freq of None \<Rightarrow> 30 | Some Weekly \<Rightarrow> 7 | Some Biweekly \<Rightarrow> 14
                          | Some Monthly \<Rightarrow> 30 | Some Every_1_5_months \<Rightarrow> 45
                          | Some Every_2_months \<Rightarrow> 60 | Some Quarterly \<Rightarrow> 90)) < today
      then formatDate today + 7
      else lastDate + (case freq of None \<Rightarrow> 30 | Some Weekly \<Rightarrow> 7 | Some Biweekly \<Rightarrow> 14
                   | Some Monthly \<Rightarrow> 30 | Some Every_1_5_months \<Rightarrow> 45
                   | Some Every_2_months \<Rightarrow> 60 | Some Quarterly \<Rightarrow> 90))
   \<and> (lastDate + REBOOKING_INTERVALS (case freq of None \<Rightarrow> Monthly | Some f \<Rightarrow> f) < formatDate today
        \<longrightarrow> sahr_scheduler_suggest_rebooking today lastDate freq = formatDate today + 7)
   \<and> (formatDate today < lastDate + REBOOKING_INTERVALS (case freq of None \<Rightarrow> Monthly | Some f \<Rightarrow> f)
        \<longrightarrow> sahr_scheduler_suggest_rebooking today lastDate freq
              = lastDate + REBOOKING_INTERVALS (case freq of None \<Rightarrow> Monthly | Some f \<Rightarrow> f))
   \<and> (formatDate today < date_of_ymd (2026, 1, 31)
        \<longrightarrow> ymd_of_date (sahr_scheduler_suggest_rebooking today (date_of_ymd (2026, 1, 1))
                            (Some Monthly)) = (2026, 1, 31))"
proof -
  have tab: "REBOOKING_INTERVALS (case freq of None \<Rightarrow> Monthly | Some f \<Rightarrow> f) =
      (case freq of None \<Rightarrow> 30 | Some Weekly \<Rightarrow> 7 | Some Biweekly \<Rightarrow> 14
         | Some Monthly \<Rightarrow> 30 | Some Every_1_5_months \<Rightarrow> 45
         | Some Every_2_months \<Rightarrow> 60 | Some Quarterly \<Rightarrow> 90)"
    by (simp split: option.splits frequency.splits)
  have ex: "formatDate today < date_of_ymd (2026, 1, 31)
        \<longrightarrow> ymd_of_date (sahr_scheduler_suggest_rebooking today (date_of_ymd (2026, 1, 1))
                            (Some Monthly)) = (2026, 1, 31)"
    using day_future [of today 20484] by (simp add: rebooking_eq day_2026_01_01 day_2026_01_31 ymd_20484)
  show ?thesis
    using day_passed [of "lastDate + REBOOKING_INTERVALS (case freq of None \<Rightarrow> Monthly | Some f \<Rightarrow> f)" today]
      day_future [of today "lastDate + REBOOKING_INTERVALS (case freq of None \<Rightarrow> Monthly | Some f \<Rightarrow> f)"]
      ex
    by (simp add: rebooking_eq Let_def tab [symmetric])
qed

text \<open>
  Claim C5. sahr_scheduler_suggest_rebooking computes the last booking date plus the
  interval of the frequency (weekly 7, biweekly 14, monthly 30, every 1.5 months 45, every
  2 months 60, quarterly 90 days; monthly when no frequency is given). If that date,
  taken at midnight, lies before the current instant, the result is today plus 7 days:
  so it is when the date is before today's date, and a date after today's date is
  returned as it is. Last booking 2026-01-01 with frequency monthly gives 2026-01-31
  whenever that date is still in the future.
\<close>

theorem rebooking_date:
  "sahr_scheduler_suggest_rebooking today lastDate freq =
     (if new_Date (lastDate + (case freq of None \<Rightarrow> 30 | Some Weekly \<Rightarrow> 7 | Some Biweekly \<Rightarrow> 14
                          | Some Monthly \<Rightarrow> 30 | Some Every_1_5_months \<Rightarrow> 45
                          | Some Every_2_months \<Rightarrow> 60 | Some Quarterly \<Rightarrow> 90)) < today
      then formatDate today + 7
      else lastDate + (case freq of None \<Rightarrow> 30 | Some Weekly \<Rightarrow> 7 | Some Biweekly \<Rightarrow> 14
                   | Some Monthly \<Rightarrow> 30 | Some Every_1_5_months \<Rightarrow> 45
                   | Some Every_2_months \<Rightarrow> 60 | Some Quarterly \<Rightarrow> 90))
   \<and> (lastDate + REBOOKING_INTERVALS (case freq of None \<Rightarrow> Monthly | Some f \<Rightarrow> f) < formatDate today
        \<longrightarrow> sahr_scheduler_suggest_rebooking today lastDate freq = formatDate today + 7)
   \<and> (formatDate today < lastDate + REBOOKING_INTERVALS (case freq of None \<Rightarrow> Monthly | Some f \<Rightarrow> f)
        \<longrightarrow> sahr_scheduler_suggest_rebooking today lastDate freq
              = lastDate + REBOOKING_INTERVALS (case freq of None \<Rightarrow> Monthly | Some f \<Rightarrow> f))
   \<and> (formatDate today < date_of_ymd (2026, 1, 31)
        \<longrightarrow> ymd_of_date (sahr_scheduler_suggest_rebooking today (date_of_ymd (2026, 1, 1))
                            (Some Monthly)) = (2026, 1, 31))"
  by (rule rebooking_cases)

theorem rebooking_date_witness:
  "formatDate jan_10_10am < date_of_ymd (2026, 1, 31)
   \<and> ymd_of_date (sahr_scheduler_suggest_rebooking jan_10_10am (date_of_ymd (2026, 1, 1))
                     (Some Monthly)) = (2026, 1, 31)
   \<and> date_of_ymd (2026, 1, 1)
        + REBOOKING_INTERVALS (case Some Monthly of None \<Rightarrow> Monthly | Some f \<Rightarrow> f)
       < formatDate mar_10_10am
   \<and> sahr_scheduler_suggest_rebooking mar_10_10am (date_of_ymd (2026, 1, 1)) (Some Monthly)
       = formatDate mar_10_10am + 7
   \<and> ymd_of_date (formatDate mar_10_10am + 7) = (2026, 3, 17)"
proof -
  have h1: "formatDate jan_10_10am < date_of_ymd (2026, 1, 31)"
    by code_simp
  have h2: "date_of_ymd (2026, 1, 1)
        + REBOOKING_INTERVALS (case Some Monthly of None \<Rightarrow> Monthly | Some f \<Rightarrow> f)
       < formatDate mar_10_10am"
    by code_simp
  have h3: "ymd_of_date (formatDate mar_10_10am + 7) = (2026, 3, 17)"
    by code_simp
  show ?thesis
    using rebooking_date [of jan_10_10am "date_of_ymd (2026, 1, 1)" "Some Monthly"]
      rebooking_date [of mar_10_10am "date_of_ymd (2026, 1, 1)" "Some Monthly"] h1 h2 h3
    by blast
qed

section \<open>Properties of the finance sync\<close>

subsection \<open>One call\<close>

lemma sync_already:
  assumes "sahr_bookings db (sy_bookingId params) = Some booking"
      and "already_synced booking = Some tid"
  shows "sahr_finance_sync_booking cfg env db params = (Already_synced tid, db)"
  using assms by (simp add: sahr_finance_sync_booking_def)


lemma tx_category_service [simp]:
  "tx_category (service_transaction cfg env bid b acc amt) =
     or_string (SERVICE_CATEGORIES (bd_serviceType b)) ''auto-detailing''"
  "tx_amount (service_transaction cfg env bid b acc amt) = amt"
  "md_bookingId (tx_metadata (service_transaction cfg env bid b acc amt)) = bid"
  by (simp_all add: service_transaction_def)

lemma tx_category_tip [simp]:
  "tx_category (tip_transaction cfg env bid b acc cust tip) = ''tips''"
  "tx_amount (tip_transaction cfg env bid b acc cust tip) = tip"
  "md_bookingId (tx_metadata (tip_transaction cfg env bid b acc cust tip)) = bid"
  by (simp_all add: tip_transaction_def)

lemma sync_fresh:
  assumes bk: "sahr_bookings db (sy_bookingId params) = Some booking"
      and un: "already_synced booking = None"
  shows "sahr_bookings (snd (sahr_finance_sync_booking cfg env db params)) (sy_bookingId params)
           = Some (mark_synced env (autoId env (length (transactions db))) booking)"
    and "\<exists>posted. transactions (snd (sahr_finance_sync_booking cfg env db params))
             = transactions db @ posted
           \<and> map tx_summary posted =
               (or_string (SERVICE_CATEGORIES (bd_serviceType booking)) ''auto-detailing'',
                or_amount (sy_overrideAmount params) (bd_price booking), sy_bookingId params)
               # (case positive_tip booking of None \<Rightarrow> []
                  | Some tip \<Rightarrow> [(''tips'', tip, sy_bookingId params)])"
    and "\<exists>t tip. fst (sahr_finance_sync_booking cfg env db params)
           = Booking_synced t tip (autoId env (length (transactions db)))"
  using bk un
  by (auto simp: sahr_finance_sync_booking_def Let_def addDoc_def updateDoc_def tx_summary_def
        split: option.splits)

lemma bulk_single:
  "sahr_finance_bulk_sync cfg env db \<lparr> bookingIds = [bid], defaultPaymentMethod = dpm \<rparr>
     = bulk_step cfg env \<lparr> bookingIds = [bid], defaultPaymentMethod = dpm \<rparr>
         \<lparr> bs_db = db, results = [], totalSynced = 0, totalAmount = 0 \<rparr> bid"
  by (simp add: sahr_finance_bulk_sync_def)

lemma already_synced_Some_iff:
  "already_synced b = Some tid \<longleftrightarrow>
     financeSynced b = Some True \<and> financeTransactionId b = Some tid \<and> tid \<noteq> []"
  by (auto simp: already_synced_def split: option.splits if_splits)

lemma sync_not_found:
  "sahr_bookings db (sy_bookingId params) = None \<Longrightarrow>
     sahr_finance_sync_booking cfg env db params = (Not_found (sy_bookingId params), db)"
  by (simp add: sahr_finance_sync_booking_def)

lemma sync_already_iff:
  "(\<exists>tid. fst (sahr_finance_sync_booking cfg env db params) = Already_synced tid) =
     (\<exists>b tid. sahr_bookings db (sy_bookingId params) = Some b \<and> financeSynced b = Some True
         \<and> financeTransactionId b = Some tid \<and> tid \<noteq> [])"
proof (cases "sahr_bookings db (sy_bookingId params)")
  case None
  then show ?thesis by (simp add: sync_not_found)
next
  case (Some b)
  show ?thesis
  proof (cases "already_synced b")
    case None
    from sync_fresh(3) [OF Some None, of cfg env] obtain t tip
      where "fst (sahr_finance_sync_booking cfg env db params)
               = Booking_synced t tip (autoId env (length (transactions db)))"
      by blast
    moreover have "\<not> (\<exists>tid. financeSynced b = Some True \<and> financeTransactionId b = Some tid
                        \<and> tid \<noteq> [])"
      using None already_synced_Some_iff [of b] by auto
    ultimately show ?thesis using Some by simp
  next
    case (Some tid)
    with \<open>sahr_bookings db (sy_bookingId params) = Some b\<close>
    have "sahr_finance_sync_booking cfg env db params = (Already_synced tid, db)"
      by (rule sync_already)
    moreover have "financeSynced b = Some True \<and> financeTransactionId b = Some tid \<and> tid \<noteq> []"
      using Some by (simp add: already_synced_Some_iff)
    ultimately show ?thesis
      using \<open>sahr_bookings db (sy_bookingId params) = Some b\<close> by auto
  qed
qed

subsection \<open>Two calls in sequence\<close>




subsection \<open>Single and bulk sync\<close>

lemma bulk_step_results:
  "results (bulk_step cfg env bp st bid) =
     results st @
       [(case sahr_bookings (bs_db st) bid of
           None \<Rightarrow> \<lparr> br_bookingId = bid, br_success = False, br_transactionId = None,
                     br_error = Some ''Not found'' \<rparr>
         | Some b \<Rightarrow>
             if financeSynced b = Some True
             then \<lparr> br_bookingId = bid, br_success = False, br_transactionId = None,
                    br_error = Some ''Already synced'' \<rparr>
             else \<lparr> br_bookingId = bid, br_success = True,
                    br_transactionId = Some (autoId env (length (transactions (bs_db st)))),
                    br_error = None \<rparr>)]"
  by (simp add: bulk_step_def Let_def addDoc_def split: option.splits prod.splits)

lemma bulk_skip_iff:
  "(results (sahr_finance_bulk_sync cfg env db \<lparr> bookingIds = [bid], defaultPaymentMethod = dpm \<rparr>)
      = [\<lparr> br_bookingId = bid, br_success = False, br_transactionId = None,
           br_error = Some ''Already synced'' \<rparr>]) =
     (\<exists>b. sahr_bookings db bid = Some b \<and> financeSynced b = Some True)"
  by (cases "sahr_bookings db bid") (simp_all add: bulk_single bulk_step_results)

lemma sync_guards_aux:
  "((\<exists>tid. fst (sahr_finance_sync_booking cfg env db params) = Already_synced tid) =
     (\<exists>b tid. sahr_bookings db (sy_bookingId params) = Some b \<and> financeSynced b = Some True
         \<and> financeTransactionId b = Some tid \<and> tid \<noteq> []))
   \<and> ((results (sahr_finance_bulk_sync cfg env db
                  \<lparr> bookingIds = [sy_bookingId params], defaultPaymentMethod = dpm \<rparr>)
        = [\<lparr> br_bookingId = sy_bookingId params, br_success = False, br_transactionId = None,
             br_error = Some ''Already synced'' \<rparr>]) =
       (\<exists>b. sahr_bookings db (sy_bookingId params) = Some b \<and> financeSynced b = Some True))
   \<and> (sahr_bookings db (sy_bookingId params) = Some booking
        \<and> financeSynced booking = Some True \<and> financeTransactionId booking = None
      \<longrightarrow> (\<exists>t tip. fst (sahr_finance_sync_booking cfg env db params)
                      = Booking_synced t tip (autoId env (length (transactions db))))
          \<and> length (transactions (snd (sahr_finance_sync_booking cfg env db params)))
              > length (transactions db)
          \<and> sahr_finance_bulk_sync cfg env db
               \<lparr> bookingIds = [sy_bookingId params], defaultPaymentMethod = dpm \<rparr>
             = \<lparr> bs_db = db,
                 results = [\<lparr> br_bookingId = sy_bookingId params, br_success = False,
                              br_transactionId = None, br_error = Some ''Already synced'' \<rparr>],
                 totalSynced = 0, totalAmount = 0 \<rparr>)"
proof (intro conjI impI)
  show "(\<exists>tid. fst (sahr_finance_sync_booking cfg env db params) = Already_synced tid) =
     (\<exists>b tid. sahr_bookings db (sy_bookingId params) = Some b \<and> financeSynced b = Some True
         \<and> financeTransactionId b = Some tid \<and> tid \<noteq> [])"
    by (rule sync_already_iff)
next
  show "(results (sahr_finance_bulk_sync cfg env db
                  \<lparr> bookingIds = [sy_bookingId params], defaultPaymentMethod = dpm \<rparr>)
        = [\<lparr> br_bookingId = sy_bookingId params, br_success = False, br_transactionId = None,
             br_error = Some ''Already synced'' \<rparr>]) =
       (\<exists>b. sahr_bookings db (sy_bookingId params) = Some b \<and> financeSynced b = Some True)"
    by (rule bulk_skip_iff)
next
  assume a: "sahr_bookings db (sy_bookingId params) = Some booking
        \<and> financeSynced booking = Some True \<and> financeTransactionId booking = None"
  then have bk: "sahr_bookings db (sy_bookingId params) = Some booking"
    and un: "already_synced booking = None"
    by (simp_all add: already_synced_def)
  show "\<exists>t tip. fst (sahr_finance_sync_booking cfg env db params)
                      = Booking_synced t tip (autoId env (length (transactions db)))"
    by (rule sync_fresh(3) [OF bk un])
  have "\<exists>posted. transactions (snd (sahr_finance_sync_booking cfg env db params))
             = transactions db @ posted
           \<and> map tx_summary posted =
               (or_string (SERVICE_CATEGORIES (bd_serviceType booking)) ''auto-detailing'',
                or_amount (sy_overrideAmount params) (bd_price booking), sy_bookingId params)
               # (case positive_tip booking of None \<Rightarrow> []
                  | Some tip \<Rightarrow> [(''tips'', tip, sy_bookingId params)])"
    by (rule sync_fresh(2) [OF bk un])
  then obtain posted
    where pm: "transactions (snd (sahr_finance_sync_booking cfg env db params))
             = transactions db @ posted
           \<and> map tx_summary posted =
               (or_string (SERVICE_CATEGORIES (bd_serviceType booking)) ''auto-detailing'',
                or_amount (sy_overrideAmount params) (bd_price booking), sy_bookingId params)
               # (case positive_tip booking of None \<Rightarrow> []
                  | Some tip \<Rightarrow> [(''tips'', tip, sy_bookingId params)])" ..
  from pm [THEN conjunct2] have "posted \<noteq> []"
    by (cases posted) simp_all
  with pm [THEN conjunct1]
  have "length (transactions (snd (sahr_finance_sync_booking cfg env db params)))
      = length (transactions db) + length posted \<and> 0 < length posted"
    by simp
  then show "length (transactions (snd (sahr_finance_sync_booking cfg env db params)))
              > length (transactions db)"
    by linarith
  show "sahr_finance_bulk_sync cfg env db
               \<lparr> bookingIds = [sy_bookingId params], defaultPaymentMethod = dpm \<rparr>
             = \<lparr> bs_db = db,
                 results = [\<lparr> br_bookingId = sy_bookingId params, br_success = False,
                              br_transactionId = None, br_error = Some ''Already synced'' \<rparr>],
                 totalSynced = 0, totalAmount = 0 \<rparr>"
    using a by (simp add: bulk_single bulk_step_def)
qed

text \<open>
  Claim C10. sahr_finance_sync_booking answers already synced exactly when the booking has
  both the flag financeSynced and a transaction id; sahr_finance_bulk_sync skips a booking
  as already synced exactly when the flag is set. So for a booking with the flag but no
  transaction id the single sync posts a new transaction, while the bulk sync reports it
  as already synced and leaves the store as it was.
\<close>

theorem single_and_bulk_sync_guards:
  "((\<exists>tid. fst (sahr_finance_sync_booking cfg env db params) = Already_synced tid) =
     (\<exists>b tid. sahr_bookings db (sy_bookingId params) = Some b \<and> financeSynced b = Some True
         \<and> financeTransactionId b = Some tid \<and> tid \<noteq> []))
   \<and> ((results (sahr_finance_bulk_sync cfg env db
                  \<lparr> bookingIds = [sy_bookingId params], defaultPaymentMethod = dpm \<rparr>)
        = [\<lparr> br_bookingId = sy_bookingId params, br_success = False, br_transactionId = None,
             br_error = Some ''Already synced'' \<rparr>]) =
       (\<exists>b. sahr_bookings db (sy_bookingId params) = Some b \<and> financeSynced b = Some True))
   \<and> (sahr_bookings db (sy_bookingId params) = Some booking
        \<and> financeSynced booking = Some True \<and> financeTransactionId booking = None
      \<longrightarrow> (\<exists>t tip. fst (sahr_finance_sync_booking cfg env db params)
                      = Booking_synced t tip (autoId env (length (transactions db))))
          \<and> length (transactions (snd (sahr_finance_sync_booking cfg env db params)))
              > length (transactions db)
          \<and> sahr_finance_bulk_sync cfg env db
               \<lparr> bookingIds = [sy_bookingId params], defaultPaymentMethod = dpm \<rparr>
             = \<lparr> bs_db = db,
                 results = [\<lparr> br_bookingId = sy_bookingId params, br_success = False,
                              br_transactionId = None, br_error = Some ''Already synced'' \<rparr>],
                 totalSynced = 0, totalAmount = 0 \<rparr>)"
  by (rule sync_guards_aux)

theorem single_and_bulk_sync_guards_witness:
  "(sahr_bookings (example_store flagged_booking) (sy_bookingId example_sync_params)
        = Some flagged_booking
      \<and> financeSynced flagged_booking = Some True \<and> financeTransactionId flagged_booking = None)
   \<and> length (transactions (snd (sahr_finance_sync_booking example_finance_config example_env
                  (example_store flagged_booking) example_sync_params)))
       > length (transactions (example_store flagged_booking))
   \<and> sahr_finance_bulk_sync example_finance_config example_env (example_store flagged_booking)
         \<lparr> bookingIds = [sy_bookingId example_sync_params], defaultPaymentMethod = None \<rparr>
       = \<lparr> bs_db = example_store flagged_booking,
           results = [\<lparr> br_bookingId = sy_bookingId example_sync_params, br_success = False,
                        br_transactionId = None, br_error = Some ''Already synced'' \<rparr>],
           totalSynced = 0, totalAmount = 0 \<rparr>"
proof -
  have h: "sahr_bookings (example_store flagged_booking) (sy_bookingId example_sync_params)
        = Some flagged_booking
      \<and> financeSynced flagged_booking = Some True \<and> financeTransactionId flagged_booking = None"
    by (simp add: example_store_def example_sync_params_def flagged_booking_def
          completed_booking_def)
  note t = single_and_bulk_sync_guards [where cfg = example_finance_config
      and env = example_env and db = "example_store flagged_booking"
      and params = example_sync_params and booking = flagged_booking and dpm = None,
      THEN conjunct2, THEN conjunct2, THEN mp, OF h]
  show ?thesis
    using h t [THEN conjunct2, THEN conjunct1] t [THEN conjunct2, THEN conjunct2]
    by (simp only: simp_thms)
qed

end
